theory Spec2Isabelle
  imports Complex_Main "HOL-Library.Word"
begin

unbundle bit_operations_syntax

section \<open>The MPSSE command vocabulary (ftd2xx\_iface.py, module constants)\<close>

text \<open>
  Python integers are unbounded, so every command byte the engine builds is an \<open>int\<close>;
  the range check of \<^verbatim>\<open>bytes(data)\<close> is made where the source makes it, in
  \<open>ft_write\<close>.
\<close>

definition CMD_SET_DATABITS_LOW :: int where "CMD_SET_DATABITS_LOW = 0x80"
definition CMD_DATAOUT_NEG_EDGE :: int where "CMD_DATAOUT_NEG_EDGE = 0x13"
definition CMD_DATAIN_POS_EDGE :: int where "CMD_DATAIN_POS_EDGE = 0x22"
definition CMD_SEND_IMMEDIATE :: int where "CMD_SEND_IMMEDIATE = 0x87"
definition CMD_CLKDIV_DISABLE :: int where "CMD_CLKDIV_DISABLE = 0x8B"
definition CMD_SET_CLOCK :: int where "CMD_SET_CLOCK = 0x86"
definition DATASIZE_1BIT :: int where "DATASIZE_1BIT = 0x00"
definition DATASIZE_8BITS :: int where "DATASIZE_8BITS = 0x07"
definition DATA_SEND_NACK :: int where "DATA_SEND_NACK = 0x80"
definition DATA_SEND_ACK :: int where "DATA_SEND_ACK = 0x00"
definition VAL_SCLHI_SDAHI :: int where "VAL_SCLHI_SDAHI = 0x03"
definition VAL_SCLHI_SDALO :: int where "VAL_SCLHI_SDALO = 0x01"
definition VAL_SCLLO_SDALO :: int where "VAL_SCLLO_SDALO = 0x00"
definition VAL_SCLLO_SDAHI :: int where "VAL_SCLLO_SDAHI = 0x02"
definition DIR_SCLOUT_SDAOUT :: int where "DIR_SCLOUT_SDAOUT = 0x13"
definition DIR_SCLIN_SDAIN :: int where "DIR_SCLIN_SDAIN = 0x10"
definition DIR_SCLOUT_SDAIN :: int where "DIR_SCLOUT_SDAIN = 0x11"

lemmas mpsse_consts =
  CMD_SET_DATABITS_LOW_def CMD_DATAOUT_NEG_EDGE_def CMD_DATAIN_POS_EDGE_def
  CMD_SEND_IMMEDIATE_def CMD_CLKDIV_DISABLE_def CMD_SET_CLOCK_def
  DATASIZE_1BIT_def DATASIZE_8BITS_def DATA_SEND_NACK_def DATA_SEND_ACK_def
  VAL_SCLHI_SDAHI_def VAL_SCLHI_SDALO_def VAL_SCLLO_SDALO_def VAL_SCLLO_SDAHI_def
  DIR_SCLOUT_SDAOUT_def DIR_SCLIN_SDAIN_def DIR_SCLOUT_SDAIN_def

section \<open>The transport and the exceptions of the engine\<close>

text \<open>
  The exceptions the modelled code can raise: \<open>IOError\<close> is the NACK fault of
  \<open>ft_i2c_write_get_ack\<close>, \<open>IndexError\<close> is \<^verbatim>\<open>result[0]\<close> on an empty read,
  \<open>ValueError\<close> is \<^verbatim>\<open>bytes(data)\<close> on a value outside \<open>range(256)\<close>,
  \<open>StructError\<close> is \<^verbatim>\<open>struct.error\<close> of \<^verbatim>\<open>unpack\<close> on a buffer of the wrong size.
\<close>

datatype error = IOError | IndexError | ValueError | StructError

text \<open>
  The transport handle \<^verbatim>\<open>self.__dev\<close>. Every call the engine makes on it is recorded
  in \<open>trace\<close>, in order; \<open>rx\<close> is the queue of response bytes the bridge device
  delivers to the coming reads. A read of \<open>n\<close> bytes takes the first \<open>n\<close> bytes of
  the queue, fewer when the queue is shorter (a read that timed out).
\<close>

datatype event =
    Write "int list"
  | Read nat
  | SetLatencyTimer int
  | SetBitMode int int

record ftdev =
  trace :: "event list"
  rx :: "8 word list"

type_synonym 'a ft = "ftdev \<Rightarrow> (error + 'a) \<times> ftdev"

definition return_ft :: "'a \<Rightarrow> 'a ft" where
  "return_ft x d = (Inr x, d)"

definition raise_ft :: "error \<Rightarrow> 'a ft" where
  "raise_ft e d = (Inl e, d)"

text \<open>Sequencing: an exception of the first statement skips the rest.\<close>

definition bind_ft :: "'a ft \<Rightarrow> ('a \<Rightarrow> 'b ft) \<Rightarrow> 'b ft" where
  "bind_ft m f d = (case m d of (Inl e, d') \<Rightarrow> (Inl e, d') | (Inr x, d') \<Rightarrow> f x d')"

definition dev_write :: "int list \<Rightarrow> ftdev \<Rightarrow> ftdev" where
  "dev_write s d = d\<lparr>trace := trace d @ [Write s]\<rparr>"

definition dev_read :: "nat \<Rightarrow> ftdev \<Rightarrow> 8 word list \<times> ftdev" where
  "dev_read n d = (take n (rx d), d\<lparr>trace := trace d @ [Read n], rx := drop n (rx d)\<rparr>)"

definition dev_setLatencyTimer :: "int \<Rightarrow> ftdev \<Rightarrow> ftdev" where
  "dev_setLatencyTimer ms d = d\<lparr>trace := trace d @ [SetLatencyTimer ms]\<rparr>"

definition dev_setBitMode :: "int \<Rightarrow> int \<Rightarrow> ftdev \<Rightarrow> ftdev" where
  "dev_setBitMode msk mode d = d\<lparr>trace := trace d @ [SetBitMode msk mode]\<rparr>"

section \<open>Python helpers used by the engine\<close>

text \<open>\<^verbatim>\<open>bytes(data)\<close> on a list of ints: ValueError unless every value is in \<open>range(256)\<close>.\<close>

definition py_bytes :: "int list \<Rightarrow> error + int list" where
  "py_bytes data =
     (if list_all (\<lambda>b. 0 \<le> b \<and> b < 256) data then Inr data else Inl ValueError)"

text \<open>\<^verbatim>\<open>xs * n\<close> on a list.\<close>

definition py_repeat :: "'a list \<Rightarrow> nat \<Rightarrow> 'a list" where
  "py_repeat xs n = concat (replicate n xs)"

text \<open>\<^verbatim>\<open>range(n)\<close>: empty when \<open>n \<le> 0\<close>.\<close>

definition py_range :: "int \<Rightarrow> int list" where
  "py_range n = map int [0..<nat n]"

text \<open>Pairing consecutive bytes, low byte first (the format \<^verbatim>\<open>'<H'\<close>).\<close>

fun le_words :: "int list \<Rightarrow> int list" where
  "le_words (lo # hi # rest) = (lo + 256 * hi) # le_words rest"
| "le_words _ = []"

text \<open>
  \<^verbatim>\<open>unpack('<' + 'H'*num_words, buf)\<close>: \<^verbatim>\<open>'H'*num_words\<close> is the empty string
  for \<open>num_words \<le> 0\<close>; the buffer must hold exactly two bytes per \<^verbatim>\<open>H\<close>.
\<close>

definition unpack_le_H :: "int \<Rightarrow> int list \<Rightarrow> error + int list" where
  "unpack_le_H num_words buf =
     (if length buf = 2 * nat num_words then Inr (le_words buf) else Inl StructError)"

text \<open>\<^verbatim>\<open>unpack('<' + 'H'*num_words, bytes(rd))\<close>.\<close>

definition unpack_words :: "int \<Rightarrow> int list \<Rightarrow> error + int list" where
  "unpack_words num_words rd =
     (case py_bytes rd of Inl e \<Rightarrow> Inl e | Inr buf \<Rightarrow> unpack_le_H num_words buf)"

text \<open>\<^verbatim>\<open>xs[0]\<close>.\<close>

definition py_first :: "'a list \<Rightarrow> error + 'a" where
  "py_first xs = (case xs of [] \<Rightarrow> Inl IndexError | x # _ \<Rightarrow> Inr x)"

definition lift_ft :: "error + 'a \<Rightarrow> 'a ft" where
  "lift_ft r d = (r, d)"

section \<open>Serial command primitives (class ftd2xx\_i2c)\<close>

text \<open>
  \<^verbatim>\<open>__ft_write\<close>: \<^verbatim>\<open>bytes(data)\<close> raises before anything reaches the device; the
  result is the count the transport returns for a complete write. A failure inside the
  driver's own \<^verbatim>\<open>write\<close> or \<^verbatim>\<open>read\<close> is outside the engine and is not modelled.
\<close>

definition ft_write :: "int list \<Rightarrow> int ft" where
  "ft_write data d =
     (case py_bytes data of
        Inl e \<Rightarrow> (Inl e, d)
      | Inr s \<Rightarrow> (Inr (int (length s)), dev_write s d))"

text \<open>
  \<^verbatim>\<open>__ft_read\<close>: both branches of the source (\<^verbatim>\<open>ord\<close> of each character of a
  string, \<^verbatim>\<open>list\<close> of a bytes object) give the list of the byte values read.
\<close>

definition ft_read :: "nat \<Rightarrow> (int list) ft" where
  "ft_read nbytes d = (case dev_read nbytes d of (s, d') \<Rightarrow> (Inr (map uint s), d'))"

section \<open>The I2C bus protocol engine (class ftd2xx\_i2c)\<close>

text \<open>
  The local \<^verbatim>\<open>cmd_data\<close> of each primitive is a definition of its own, named after
  the primitive, so that the transmitted stream can be stated in the properties.
\<close>

definition start_cmd_data :: "int list" where
  "start_cmd_data =
     py_repeat [CMD_SET_DATABITS_LOW, VAL_SCLHI_SDAHI, DIR_SCLOUT_SDAOUT] 10
     @ py_repeat [CMD_SET_DATABITS_LOW, VAL_SCLHI_SDALO, DIR_SCLOUT_SDAOUT] 20
     @ [CMD_SET_DATABITS_LOW, VAL_SCLLO_SDALO, DIR_SCLOUT_SDAOUT]"

definition ft_i2c_start :: "unit ft" where
  "ft_i2c_start = bind_ft (ft_write start_cmd_data) (\<lambda>_. return_ft ())"

definition stop_cmd_data :: "int list" where
  "stop_cmd_data =
     py_repeat [CMD_SET_DATABITS_LOW, VAL_SCLLO_SDALO, DIR_SCLOUT_SDAOUT] 10
     @ py_repeat [CMD_SET_DATABITS_LOW, VAL_SCLHI_SDALO, DIR_SCLOUT_SDAOUT] 10
     @ py_repeat [CMD_SET_DATABITS_LOW, VAL_SCLHI_SDAHI, DIR_SCLOUT_SDAOUT] 10
     @ [CMD_SET_DATABITS_LOW, VAL_SCLHI_SDAHI, DIR_SCLIN_SDAIN]"

definition ft_i2c_stop :: "unit ft" where
  "ft_i2c_stop = bind_ft (ft_write stop_cmd_data) (\<lambda>_. return_ft ())"

definition write_get_ack_cmd_data :: "int \<Rightarrow> int list" where
  "write_get_ack_cmd_data data =
     [CMD_SET_DATABITS_LOW, VAL_SCLLO_SDAHI, DIR_SCLOUT_SDAOUT]
     @ [CMD_DATAOUT_NEG_EDGE, DATASIZE_8BITS, data]
     @ [CMD_SET_DATABITS_LOW, VAL_SCLLO_SDALO, DIR_SCLOUT_SDAIN]
     @ [CMD_DATAIN_POS_EDGE, DATASIZE_1BIT]
     @ [CMD_SEND_IMMEDIATE]"

definition ft_i2c_write_get_ack :: "int \<Rightarrow> unit ft" where
  "ft_i2c_write_get_ack data =
     bind_ft (ft_write (write_get_ack_cmd_data data)) (\<lambda>_.
     bind_ft (ft_read 1) (\<lambda>result.
     bind_ft (lift_ft (py_first result)) (\<lambda>r.
       if r AND 0x1 \<noteq> 0 then raise_ft IOError else return_ft ())))"

definition read_give_ack_cmd_data :: "bool \<Rightarrow> int list" where
  "read_give_ack_cmd_data nack =
     [CMD_SET_DATABITS_LOW, VAL_SCLLO_SDALO, DIR_SCLOUT_SDAIN]
     @ [CMD_DATAIN_POS_EDGE, DATASIZE_8BITS]
     @ (if nack
        then [CMD_SET_DATABITS_LOW, VAL_SCLLO_SDALO, DIR_SCLOUT_SDAIN]
             @ [CMD_DATAOUT_NEG_EDGE, DATASIZE_1BIT, DATA_SEND_NACK]
        else [CMD_SET_DATABITS_LOW, VAL_SCLLO_SDALO, DIR_SCLOUT_SDAOUT]
             @ [CMD_DATAOUT_NEG_EDGE, DATASIZE_1BIT, DATA_SEND_ACK])
     @ [CMD_SET_DATABITS_LOW, VAL_SCLLO_SDALO, DIR_SCLOUT_SDAIN]
     @ [CMD_SEND_IMMEDIATE]"

definition ft_i2c_read_give_ack :: "bool \<Rightarrow> int ft" where
  "ft_i2c_read_give_ack nack =
     bind_ft (ft_write (read_give_ack_cmd_data nack)) (\<lambda>_.
     bind_ft (ft_read 1) (\<lambda>result. lift_ft (py_first result)))"

definition ft_i2c_dev_addr :: "int \<Rightarrow> bool \<Rightarrow> unit ft" where
  "ft_i2c_dev_addr bus_addr read =
     (let addr = bus_addr AND 0xFE;
          addr = (if read then addr OR 0x1 else addr)
      in ft_i2c_write_get_ack addr)"

definition ft_i2c_write_reg_addr :: "int \<Rightarrow> int \<Rightarrow> bool \<Rightarrow> unit ft" where
  "ft_i2c_write_reg_addr bus_addr reg_addr stop =
     bind_ft ft_i2c_start (\<lambda>_.
     bind_ft (ft_i2c_dev_addr bus_addr False) (\<lambda>_.
     bind_ft (ft_i2c_write_get_ack reg_addr) (\<lambda>_.
       if stop then ft_i2c_stop else return_ft ())))"

text \<open>
  The loop \<^verbatim>\<open>for i in range(num_bytes): out_data.append(read_give_ack(i == num_bytes-1))\<close>,
  by recursion on the list of indices still to visit.
\<close>

fun read_loop :: "int list \<Rightarrow> int \<Rightarrow> int list \<Rightarrow> (int list) ft" where
  "read_loop [] num_bytes out_data d = (Inr out_data, d)"
| "read_loop (i # is) num_bytes out_data d =
     (case ft_i2c_read_give_ack (i = num_bytes - 1) d of
        (Inl e, d') \<Rightarrow> (Inl e, d')
      | (Inr b, d') \<Rightarrow> read_loop is num_bytes (out_data @ [b]) d')"

definition ft_i2c_read_bytes :: "int \<Rightarrow> int \<Rightarrow> bool \<Rightarrow> (int list) ft" where
  "ft_i2c_read_bytes bus_addr num_bytes stop =
     bind_ft ft_i2c_start (\<lambda>_.
     bind_ft (ft_i2c_dev_addr bus_addr True) (\<lambda>_.
     bind_ft (read_loop (py_range num_bytes) num_bytes []) (\<lambda>out_data.
     bind_ft (if stop then ft_i2c_stop else return_ft ()) (\<lambda>_.
       return_ft out_data))))"

definition i2c_read_words :: "int \<Rightarrow> int \<Rightarrow> int \<Rightarrow> (int list) ft" where
  "i2c_read_words bus_addr reg_addr num_words =
     bind_ft (ft_i2c_write_reg_addr bus_addr reg_addr False) (\<lambda>_.
     bind_ft (ft_i2c_read_bytes bus_addr (num_words * 2) True) (\<lambda>rd.
       lift_ft (unpack_words num_words rd)))"

definition sbs_block_read :: "int \<Rightarrow> int \<Rightarrow> int \<Rightarrow> (int list) ft" where
  "sbs_block_read bus_addr reg_addr num_bytes =
     bind_ft (ft_i2c_write_reg_addr bus_addr reg_addr False) (\<lambda>_.
       ft_i2c_read_bytes bus_addr num_bytes True)"

definition sbs_word_read :: "int \<Rightarrow> int \<Rightarrow> int ft" where
  "sbs_word_read bus_addr reg_addr =
     bind_ft (i2c_read_words bus_addr reg_addr 1) (\<lambda>ws. lift_ft (py_first ws))"

section \<open>Initialisation (ftd2xx\_i2c.\_\_init\_\_)\<close>

text \<open>
  \<^verbatim>\<open>int(x)\<close> on a float truncates towards zero. The only float the engine computes is
  \<^verbatim>\<open>(6000000 / (40000 * 2)) - 1\<close>: the operands and every intermediate value are small
  whole numbers, which binary floating point represents and divides exactly, so the
  computation is carried out on the reals.
\<close>

definition py_int_of_float :: "real \<Rightarrow> int" where
  "py_int_of_float x = (if 0 \<le> x then \<lfloor>x\<rfloor> else \<lceil>x\<rceil>)"

definition clock_div :: int where
  "clock_div = py_int_of_float ((6000000 / (40000 * 2)) - 1)"

text \<open>
  The constructor, from the opened handle on (\<^verbatim>\<open>_ftd.open(bus_num)\<close> gives the
  handle; \<^verbatim>\<open>sleep(0.05)\<close> is a pause and changes nothing of the state).
\<close>

definition ftd2xx_init :: "unit ft" where
  "ftd2xx_init d =
     (let d1 = dev_setLatencyTimer 8 d;
          d2 = dev_setBitMode 0 0 d1;
          d3 = dev_setBitMode 0 2 d2
      in bind_ft (ft_write [CMD_CLKDIV_DISABLE, 1]) (\<lambda>_.
         bind_ft (ft_write [CMD_SET_CLOCK, clock_div mod 256, clock_div div 256]) (\<lambda>_.
         bind_ft (ft_read 2) (\<lambda>_.
         bind_ft (ft_write [CMD_SET_DATABITS_LOW, 0x13, 0x13]) (\<lambda>_.
           return_ft ())))) d3)"

section \<open>The native-bus backend (class smbus2\_i2c)\<close>

text \<open>
  \<^verbatim>\<open>self.__bus.read_i2c_block_data(addr, reg, length)\<close> belongs to the smbus2 package,
  not to this repository: it is a parameter \<open>bus\<close> of the backend, giving for a 7-bit
  device address, a register address and a length the bytes the device delivers, or the
  exception it raises.
\<close>

type_synonym smbus = "int \<Rightarrow> int \<Rightarrow> int \<Rightarrow> error + int list"

definition smbus2_i2c_read_words :: "smbus \<Rightarrow> int \<Rightarrow> int \<Rightarrow> int \<Rightarrow> error + int list" where
  "smbus2_i2c_read_words bus bus_addr reg_addr num_words =
     (case bus (drop_bit 1 bus_addr) reg_addr (num_words * 2) of
        Inl e \<Rightarrow> Inl e
      | Inr rd \<Rightarrow> unpack_words num_words rd)"

definition smbus2_sbs_block_read :: "smbus \<Rightarrow> int \<Rightarrow> int \<Rightarrow> int \<Rightarrow> error + int list" where
  "smbus2_sbs_block_read bus bus_addr reg_addr num_bytes =
     (case bus (drop_bit 1 bus_addr) reg_addr num_bytes of
        Inl e \<Rightarrow> Inl e
      | Inr rd \<Rightarrow> py_bytes rd)"

definition smbus2_sbs_word_read :: "smbus \<Rightarrow> int \<Rightarrow> int \<Rightarrow> error + int" where
  "smbus2_sbs_word_read bus bus_addr reg_addr =
     (case bus (drop_bit 1 bus_addr) reg_addr 2 of
        Inl e \<Rightarrow> Inl e
      | Inr rd \<Rightarrow> (case unpack_words 1 rd of Inl e \<Rightarrow> Inl e | Inr ws \<Rightarrow> py_first ws))"

section \<open>Reading a command stream back\<close>

text \<open>
  The engine builds each stream from four kinds of command, grouped as its
  \<^verbatim>\<open>extend\<close> calls group them: set the low pins (opcode, value, direction), clock
  bits out (opcode, size, data), clock bits in (opcode, size), send immediate (opcode).
  \<open>parse_cmds\<close> reads a transmitted byte stream back into these commands, so that a
  data byte that happens to equal an opcode is not taken for a command.
\<close>

datatype mpsse_cmd =
    SetBitsLow int int
  | DataOutBits int int
  | DataInBits int
  | SendImmediate

fun parse_cmds :: "int list \<Rightarrow> mpsse_cmd list option" where
  "parse_cmds [] = Some []"
| "parse_cmds (c # rest) =
     (if c = CMD_SET_DATABITS_LOW then
        (case rest of
           v # dir # rest' \<Rightarrow> map_option ((#) (SetBitsLow v dir)) (parse_cmds rest')
         | _ \<Rightarrow> None)
      else if c = CMD_DATAOUT_NEG_EDGE then
        (case rest of
           sz # b # rest' \<Rightarrow> map_option ((#) (DataOutBits sz b)) (parse_cmds rest')
         | _ \<Rightarrow> None)
      else if c = CMD_DATAIN_POS_EDGE then
        (case rest of
           sz # rest' \<Rightarrow> map_option ((#) (DataInBits sz)) (parse_cmds rest')
         | _ \<Rightarrow> None)
      else if c = CMD_SEND_IMMEDIATE then
        map_option ((#) SendImmediate) (parse_cmds rest)
      else None)"

text \<open>
  The state of the two bus lines a set-pins command drives: the constants' names give
  the bits (\<open>VAL_SCLHI_SDALO = 0x01\<close>, \<open>DIR_SCLOUT_SDAIN = 0x11\<close>): bit 0 is the clock
  line SCL, bit 1 the data line SDA; a direction bit of 1 is an output.
\<close>

datatype pin_state = Pins (scl_high: bool) (sda_high: bool) (scl_out: bool) (sda_out: bool)

definition decode_pins :: "int \<Rightarrow> int \<Rightarrow> pin_state" where
  "decode_pins v dir = Pins (bit v 0) (bit v 1) (bit dir 0) (bit dir 1)"

fun pin_states :: "mpsse_cmd list \<Rightarrow> pin_state list option" where
  "pin_states [] = Some []"
| "pin_states (SetBitsLow v dir # cs) = map_option ((#) (decode_pins v dir)) (pin_states cs)"
| "pin_states (_ # cs) = None"

text \<open>Run lengths: each maximal run of equal neighbours with its length.\<close>

fun run_lengths :: "'a list \<Rightarrow> ('a \<times> nat) list" where
  "run_lengths [] = []"
| "run_lengths (x # xs) =
     (case run_lengths xs of
        [] \<Rightarrow> [(x, 1)]
      | (y, n) # r \<Rightarrow> if x = y then (y, Suc n) # r else (x, 1) # (y, n) # r)"

definition pin_phases :: "int list \<Rightarrow> (pin_state \<times> nat) list option" where
  "pin_phases s =
     (case parse_cmds s of
        None \<Rightarrow> None
      | Some cs \<Rightarrow> map_option run_lengths (pin_states cs))"

text \<open>The handshake bits a stream clocks out: the data of its one-bit clock-out commands.\<close>

fun handshake_bits :: "mpsse_cmd list \<Rightarrow> int list" where
  "handshake_bits [] = []"
| "handshake_bits (DataOutBits sz b # cs) =
     (if sz = DATASIZE_1BIT then b # handshake_bits cs else handshake_bits cs)"
| "handshake_bits (_ # cs) = handshake_bits cs"

fun handshakes :: "event list \<Rightarrow> int list" where
  "handshakes [] = []"
| "handshakes (Write s # es) =
     (case parse_cmds s of None \<Rightarrow> [] | Some cs \<Rightarrow> handshake_bits cs) @ handshakes es"
| "handshakes (_ # es) = handshakes es"

text \<open>The bytes a stream sends on the bus: the data of its eight-bit clock-out commands.\<close>

fun bytes_out_of :: "mpsse_cmd list \<Rightarrow> int list" where
  "bytes_out_of [] = []"
| "bytes_out_of (DataOutBits sz b # cs) =
     (if sz = DATASIZE_8BITS then b # bytes_out_of cs else bytes_out_of cs)"
| "bytes_out_of (_ # cs) = bytes_out_of cs"

fun bytes_out :: "event list \<Rightarrow> int list" where
  "bytes_out [] = []"
| "bytes_out (Write s # es) =
     (case parse_cmds s of None \<Rightarrow> [] | Some cs \<Rightarrow> bytes_out_of cs) @ bytes_out es"
| "bytes_out (_ # es) = bytes_out es"

text \<open>The data-byte reads a stream holds: its eight-bit clock-in commands.\<close>

fun data_reads_of :: "mpsse_cmd list \<Rightarrow> nat" where
  "data_reads_of [] = 0"
| "data_reads_of (DataInBits sz # cs) =
     (if sz = DATASIZE_8BITS then Suc (data_reads_of cs) else data_reads_of cs)"
| "data_reads_of (_ # cs) = data_reads_of cs"

fun data_reads :: "event list \<Rightarrow> nat" where
  "data_reads [] = 0"
| "data_reads (Write s # es) =
     (case parse_cmds s of None \<Rightarrow> 0 | Some cs \<Rightarrow> data_reads_of cs) + data_reads es"
| "data_reads (_ # es) = data_reads es"

text \<open>What a call added to the transport's trace.\<close>

definition emitted :: "ftdev \<Rightarrow> ftdev \<Rightarrow> event list" where
  "emitted d d' = drop (length (trace d)) (trace d')"

text \<open>
  The discipline of response bytes. A clock-in command of either size makes the bridge
  device queue one response byte. A transmitted stream with clock-in commands must hold
  a send-immediate command after each of them, and the next call on the transport must
  be the read of as many bytes as the stream has clock-in commands; no other read is
  allowed.
\<close>

fun count_datain :: "mpsse_cmd list \<Rightarrow> nat" where
  "count_datain [] = 0"
| "count_datain (DataInBits sz # cs) = Suc (count_datain cs)"
| "count_datain (_ # cs) = count_datain cs"

fun flush_after_datain :: "mpsse_cmd list \<Rightarrow> bool" where
  "flush_after_datain [] = True"
| "flush_after_datain (DataInBits sz # cs) =
     (SendImmediate \<in> set cs \<and> flush_after_datain cs)"
| "flush_after_datain (_ # cs) = flush_after_datain cs"

fun stream_discipline :: "event list \<Rightarrow> bool" where
  "stream_discipline [] = True"
| "stream_discipline (Write s # es) =
     (case parse_cmds s of
        None \<Rightarrow> False
      | Some cs \<Rightarrow>
          if count_datain cs = 0 then stream_discipline es
          else flush_after_datain cs \<and>
               (case es of
                  Read n # es' \<Rightarrow> n = count_datain cs \<and> stream_discipline es'
                | _ \<Rightarrow> False))"
| "stream_discipline (Read n # es) = False"
| "stream_discipline (_ # es) = stream_discipline es"

text \<open>
  An operation keeps the discipline when, from every state of the transport, what it adds
  to the trace satisfies \<open>stream_discipline\<close>, whether it returns or raises.
\<close>

definition disciplined :: "'a ft \<Rightarrow> bool" where
  "disciplined m = (\<forall>d. \<exists>t. trace (snd (m d)) = trace d @ t \<and> stream_discipline t)"

section \<open>Auxiliary facts about the primitives\<close>

lemma ack_bit: "(uint (r :: 8 word) AND 1 \<noteq> 0) = bit r 0"
proof -
  have "bit r 0 = bit (uint r) 0" by (simp add: bit_uint_iff)
  then show ?thesis by (simp add: and_one_eq bit_0 mod_2_eq_odd)
qed

lemma ft_write_ok:
  "list_all (\<lambda>b. 0 \<le> b \<and> b < 256) data \<Longrightarrow>
   ft_write data d = (Inr (int (length data)), d\<lparr>trace := trace d @ [Write data]\<rparr>)"
  by (simp add: ft_write_def py_bytes_def dev_write_def)

lemma ft_write_bad:
  "\<not> list_all (\<lambda>b. 0 \<le> b \<and> b < 256) data \<Longrightarrow> ft_write data d = (Inl ValueError, d)"
  by (simp add: ft_write_def py_bytes_def)

lemma list_all_py_repeat:
  "list_all P xs \<Longrightarrow> list_all P (py_repeat xs n)"
  by (induction n) (simp_all add: py_repeat_def)

lemma start_cmd_data_bytes: "list_all (\<lambda>b. 0 \<le> b \<and> b < 256) start_cmd_data"
  by (simp add: start_cmd_data_def list_all_py_repeat mpsse_consts)

lemma stop_cmd_data_bytes: "list_all (\<lambda>b. 0 \<le> b \<and> b < 256) stop_cmd_data"
  by (simp add: stop_cmd_data_def list_all_py_repeat mpsse_consts)

lemma write_get_ack_cmd_data_bytes:
  "list_all (\<lambda>b. 0 \<le> b \<and> b < 256) (write_get_ack_cmd_data data) = (0 \<le> data \<and> data < 256)"
  by (simp add: write_get_ack_cmd_data_def mpsse_consts)

lemma read_give_ack_cmd_data_bytes:
  "list_all (\<lambda>b. 0 \<le> b \<and> b < 256) (read_give_ack_cmd_data nack)"
  by (simp add: read_give_ack_cmd_data_def mpsse_consts)

lemma ft_i2c_start_eq:
  "ft_i2c_start d = (Inr (), d\<lparr>trace := trace d @ [Write start_cmd_data]\<rparr>)"
  by (simp add: ft_i2c_start_def bind_ft_def return_ft_def ft_write_ok start_cmd_data_bytes)

lemma ft_i2c_stop_eq:
  "ft_i2c_stop d = (Inr (), d\<lparr>trace := trace d @ [Write stop_cmd_data]\<rparr>)"
  by (simp add: ft_i2c_stop_def bind_ft_def return_ft_def ft_write_ok stop_cmd_data_bytes)

lemma ft_read_eq:
  "ft_read n d = (Inr (map uint (take n (rx d))), d\<lparr>trace := trace d @ [Read n], rx := drop n (rx d)\<rparr>)"
  by (simp add: ft_read_def dev_read_def)

lemma ft_i2c_write_get_ack_bad:
  "\<not> (0 \<le> data \<and> data < 256) \<Longrightarrow> ft_i2c_write_get_ack data d = (Inl ValueError, d)"
  by (simp add: ft_i2c_write_get_ack_def bind_ft_def ft_write_bad write_get_ack_cmd_data_bytes)

lemma ft_i2c_write_get_ack_empty:
  "0 \<le> data \<Longrightarrow> data < 256 \<Longrightarrow> rx d = [] \<Longrightarrow>
   ft_i2c_write_get_ack data d =
     (Inl IndexError, d\<lparr>trace := trace d @ [Write (write_get_ack_cmd_data data), Read 1], rx := []\<rparr>)"
  by (simp add: ft_i2c_write_get_ack_def bind_ft_def ft_write_ok write_get_ack_cmd_data_bytes
      ft_read_eq lift_ft_def py_first_def)

lemma ft_i2c_write_get_ack_byte:
  "0 \<le> data \<Longrightarrow> data < 256 \<Longrightarrow> rx d = r # rest \<Longrightarrow>
   ft_i2c_write_get_ack data d =
     (if bit r 0 then Inl IOError else Inr (),
      d\<lparr>trace := trace d @ [Write (write_get_ack_cmd_data data), Read 1], rx := rest\<rparr>)"
  by (simp add: ft_i2c_write_get_ack_def bind_ft_def ft_write_ok write_get_ack_cmd_data_bytes
      ft_read_eq lift_ft_def py_first_def raise_ft_def return_ft_def ack_bit)

lemma ft_i2c_read_give_ack_empty:
  "rx d = [] \<Longrightarrow>
   ft_i2c_read_give_ack nack d =
     (Inl IndexError, d\<lparr>trace := trace d @ [Write (read_give_ack_cmd_data nack), Read 1], rx := []\<rparr>)"
  by (simp add: ft_i2c_read_give_ack_def bind_ft_def ft_write_ok read_give_ack_cmd_data_bytes
      ft_read_eq lift_ft_def py_first_def)

lemma ft_i2c_read_give_ack_byte:
  "rx d = b # rest \<Longrightarrow>
   ft_i2c_read_give_ack nack d =
     (Inr (uint b), d\<lparr>trace := trace d @ [Write (read_give_ack_cmd_data nack), Read 1], rx := rest\<rparr>)"
  by (simp add: ft_i2c_read_give_ack_def bind_ft_def ft_write_ok read_give_ack_cmd_data_bytes
      ft_read_eq lift_ft_def py_first_def)


lemma addr_byte_range:
  "0 \<le> (bus_addr AND 0xFE) OR (if rd then 1 else 0) \<and>
   (bus_addr AND 0xFE) OR (if rd then 1 else 0) < (256::int)"
proof -
  have a: "0 \<le> bus_addr AND 0xFE" by simp
  have "bus_addr AND 0xFE \<le> 0xFE" by (rule AND_upper2) simp
  then have b: "bus_addr AND 0xFE < 2 ^ 8" by simp
  have c: "(if rd then 1 else 0) < (2::int) ^ 8" by simp
  have "(bus_addr AND 0xFE) OR (if rd then 1 else 0) < 2 ^ 8"
    using a b c by (intro OR_upper) auto
  then show ?thesis using a by simp
qed

lemma ft_i2c_dev_addr_eq:
  "ft_i2c_dev_addr bus_addr rd =
   ft_i2c_write_get_ack ((bus_addr AND 0xFE) OR (if rd then 1 else 0))"
  by (simp add: ft_i2c_dev_addr_def Let_def)

lemma ft_i2c_dev_addr_byte:
  "rx d = r # rest \<Longrightarrow>
   ft_i2c_dev_addr bus_addr rd d =
     (if bit r 0 then Inl IOError else Inr (),
      d\<lparr>trace := trace d @
           [Write (write_get_ack_cmd_data ((bus_addr AND 0xFE) OR (if rd then 1 else 0))), Read 1],
        rx := rest\<rparr>)"
  using addr_byte_range [of bus_addr rd]
  by (simp only: ft_i2c_dev_addr_eq ft_i2c_write_get_ack_byte)

lemma ft_i2c_dev_addr_empty:
  "rx d = [] \<Longrightarrow>
   ft_i2c_dev_addr bus_addr rd d =
     (Inl IndexError,
      d\<lparr>trace := trace d @
           [Write (write_get_ack_cmd_data ((bus_addr AND 0xFE) OR (if rd then 1 else 0))), Read 1],
        rx := []\<rparr>)"
  using addr_byte_range [of bus_addr rd]
  by (simp only: ft_i2c_dev_addr_eq ft_i2c_write_get_ack_empty)

lemma ft_i2c_write_reg_addr_nack:
  "rx d = r # rest \<Longrightarrow> bit r 0 \<Longrightarrow>
   ft_i2c_write_reg_addr bus_addr reg_addr stop d =
     (Inl IOError,
      d\<lparr>trace := trace d @
           [Write start_cmd_data, Write (write_get_ack_cmd_data (bus_addr AND 0xFE)), Read 1],
        rx := rest\<rparr>)"
  using ft_i2c_dev_addr_byte [of "d\<lparr>trace := trace d @ [Write start_cmd_data]\<rparr>" r rest bus_addr False]
  by (simp add: ft_i2c_write_reg_addr_def bind_ft_def ft_i2c_start_eq)

lemma ft_i2c_write_reg_addr_ack:
  "rx d = a1 # a2 # rest \<Longrightarrow> \<not> bit a1 0 \<Longrightarrow> \<not> bit a2 0 \<Longrightarrow>
   0 \<le> reg_addr \<Longrightarrow> reg_addr < 256 \<Longrightarrow>
   ft_i2c_write_reg_addr bus_addr reg_addr False d =
     (Inr (),
      d\<lparr>trace := trace d @
           [Write start_cmd_data, Write (write_get_ack_cmd_data (bus_addr AND 0xFE)), Read 1,
            Write (write_get_ack_cmd_data reg_addr), Read 1],
        rx := rest\<rparr>)"
  using ft_i2c_dev_addr_byte [of "d\<lparr>trace := trace d @ [Write start_cmd_data]\<rparr>" a1 "a2 # rest" bus_addr False]
  by (simp add: ft_i2c_write_reg_addr_def bind_ft_def ft_i2c_start_eq
      ft_i2c_write_get_ack_byte [where r = a2 and rest = rest] return_ft_def)

lemma read_loop_ok:
  "length data = length ix \<Longrightarrow> rx d = data @ rest \<Longrightarrow>
   read_loop ix n out_data d =
     (Inr (out_data @ map uint data),
      d\<lparr>trace := trace d @
           concat (map (\<lambda>i. [Write (read_give_ack_cmd_data (i = n - 1)), Read 1]) ix),
        rx := rest\<rparr>)"
proof (induction ix arbitrary: data out_data d)
  case Nil
  then show ?case by simp
next
  case (Cons i ix)
  then obtain b bs where data: "data = b # bs" by (cases data) auto
  let ?d' = "d\<lparr>trace := trace d @ [Write (read_give_ack_cmd_data (i = n - 1)), Read 1], rx := bs @ rest\<rparr>"
  have step: "ft_i2c_read_give_ack (i = n - 1) d = (Inr (uint b), ?d')"
    using Cons.prems data by (simp add: ft_i2c_read_give_ack_byte)
  have "read_loop ix n (out_data @ [uint b]) ?d' =
     (Inr ((out_data @ [uint b]) @ map uint bs),
      ?d'\<lparr>trace := trace ?d' @
           concat (map (\<lambda>i. [Write (read_give_ack_cmd_data (i = n - 1)), Read 1]) ix),
        rx := rest\<rparr>)"
    using Cons.prems data by (intro Cons.IH) auto
  then show ?case using step data by simp
qed

lemma bind_ft_Inr: "m d = (Inr x, d') \<Longrightarrow> bind_ft m f d = f x d'"
  by (simp add: bind_ft_def)

lemma bind_ft_Inl: "m d = (Inl e, d') \<Longrightarrow> bind_ft m f d = (Inl e, d')"
  by (simp add: bind_ft_def)

lemma handshake_schedule:
  "1 \<le> n \<Longrightarrow>
   concat (map (\<lambda>i. [Write (read_give_ack_cmd_data (i = int n - 1)), Read 1]) (py_range (int n))) =
   concat (replicate (n - 1) [Write (read_give_ack_cmd_data False), Read 1])
     @ [Write (read_give_ack_cmd_data True), Read 1]"
proof -
  assume n: "1 \<le> n"
  then obtain m where m: "n = Suc m" by (cases n) auto
  have r: "py_range (int n) = map int [0..<m] @ [int m]"
    unfolding py_range_def nat_int m by simp
  have "map (\<lambda>i. [Write (read_give_ack_cmd_data (int i = int m)), Read (Suc 0)]) [0..<m] =
        map (\<lambda>i. [Write (read_give_ack_cmd_data False), Read (Suc 0)]) [0..<m]"
    by (rule map_cong) auto
  then show ?thesis
    unfolding r by (simp add: m comp_def map_replicate_const)
qed

lemma ft_i2c_read_bytes_ok:
  "rx d = a # data @ rest \<Longrightarrow> \<not> bit a 0 \<Longrightarrow> length data = n \<Longrightarrow>
   ft_i2c_read_bytes bus_addr (int n) stop d =
     (Inr (map uint data),
      d\<lparr>trace := trace d @
           [Write start_cmd_data, Write (write_get_ack_cmd_data ((bus_addr AND 0xFE) OR 1)), Read 1]
           @ concat (map (\<lambda>i. [Write (read_give_ack_cmd_data (i = int n - 1)), Read 1]) (py_range (int n)))
           @ (if stop then [Write stop_cmd_data] else []),
        rx := rest\<rparr>)"
proof -
  assume rx: "rx d = a # data @ rest" and ack: "\<not> bit a 0" and len: "length data = n"
  let ?d1 = "d\<lparr>trace := trace d @ [Write start_cmd_data]\<rparr>"
  let ?d2 = "?d1\<lparr>trace := trace ?d1 @
           [Write (write_get_ack_cmd_data ((bus_addr AND 0xFE) OR 1)), Read 1],
        rx := data @ rest\<rparr>"
  let ?d3 = "?d2\<lparr>trace := trace ?d2 @
           concat (map (\<lambda>i. [Write (read_give_ack_cmd_data (i = int n - 1)), Read 1]) (py_range (int n))),
        rx := rest\<rparr>"
  let ?d4 = "?d3\<lparr>trace := trace ?d3 @ (if stop then [Write stop_cmd_data] else [])\<rparr>"
  have e1: "ft_i2c_start d = (Inr (), ?d1)" by (rule ft_i2c_start_eq)
  have e2: "ft_i2c_dev_addr bus_addr True ?d1 = (Inr (), ?d2)"
    using ft_i2c_dev_addr_byte [of ?d1 a "data @ rest" bus_addr True] rx ack by simp
  have "read_loop (py_range (int n)) (int n) [] ?d2 = (Inr ([] @ map uint data), ?d3)"
    by (rule read_loop_ok) (simp_all add: py_range_def len)
  then have e3: "read_loop (py_range (int n)) (int n) [] ?d2 = (Inr (map uint data), ?d3)"
    by simp
  have e4: "(if stop then ft_i2c_stop else return_ft ()) ?d3 = (Inr (), ?d4)"
    by (simp add: ft_i2c_stop_eq return_ft_def)
  have "ft_i2c_read_bytes bus_addr (int n) stop d = (Inr (map uint data), ?d4)"
    unfolding ft_i2c_read_bytes_def
    by (simp only: bind_ft_Inr [where m = ft_i2c_start, OF e1]
        bind_ft_Inr [where m = "ft_i2c_dev_addr bus_addr True", OF e2]
        bind_ft_Inr [where m = "read_loop (py_range (int n)) (int n) []", OF e3]
        bind_ft_Inr [where m = "if stop then ft_i2c_stop else return_ft ()", OF e4]
        return_ft_def)
  then show ?thesis by simp
qed

lemma emitted_append: "trace d' = trace d @ t \<Longrightarrow> emitted d d' = t"
  by (simp add: emitted_def)

lemma parse_write_get_ack:
  "parse_cmds (write_get_ack_cmd_data b) =
     Some [SetBitsLow VAL_SCLLO_SDAHI DIR_SCLOUT_SDAOUT, DataOutBits DATASIZE_8BITS b,
           SetBitsLow VAL_SCLLO_SDALO DIR_SCLOUT_SDAIN, DataInBits DATASIZE_1BIT, SendImmediate]"
  by (simp add: write_get_ack_cmd_data_def CMD_SET_DATABITS_LOW_def CMD_DATAOUT_NEG_EDGE_def
      CMD_DATAIN_POS_EDGE_def CMD_SEND_IMMEDIATE_def)

lemma parse_read_give_ack:
  "parse_cmds (read_give_ack_cmd_data nack) =
     Some [SetBitsLow VAL_SCLLO_SDALO DIR_SCLOUT_SDAIN, DataInBits DATASIZE_8BITS,
           SetBitsLow VAL_SCLLO_SDALO (if nack then DIR_SCLOUT_SDAIN else DIR_SCLOUT_SDAOUT),
           DataOutBits DATASIZE_1BIT (if nack then DATA_SEND_NACK else DATA_SEND_ACK),
           SetBitsLow VAL_SCLLO_SDALO DIR_SCLOUT_SDAIN, SendImmediate]"
  by (simp add: read_give_ack_cmd_data_def CMD_SET_DATABITS_LOW_def CMD_DATAOUT_NEG_EDGE_def
      CMD_DATAIN_POS_EDGE_def CMD_SEND_IMMEDIATE_def)

lemma uint_bytes: "list_all (\<lambda>b. 0 \<le> b \<and> b < 256) (map uint (data :: 8 word list))"
proof (induction data)
  case Nil
  then show ?case by simp
next
  case (Cons w ws)
  have "uint w < 2 ^ LENGTH(8)" by (rule uint_lt2p)
  then show ?case using Cons by simp
qed

lemma length_le_words: "length (le_words xs) = length xs div 2"
  by (induction xs rule: le_words.induct) simp_all

lemma nth_le_words:
  "k < length xs div 2 \<Longrightarrow> le_words xs ! k = xs ! (2 * k) + 256 * xs ! (2 * k + 1)"
proof (induction xs arbitrary: k rule: le_words.induct)
  case (1 lo hi rest)
  then show ?case by (cases k) simp_all
qed simp_all

lemma unpack_words_ok:
  "length data = 2 * n \<Longrightarrow>
   unpack_words (int n) (map uint (data :: 8 word list)) = Inr (le_words (map uint data))"
  by (simp add: unpack_words_def py_bytes_def uint_bytes unpack_le_H_def)

lemma ft_i2c_read_bytes_nack:
  "rx d = r # rest \<Longrightarrow> bit r 0 \<Longrightarrow>
   ft_i2c_read_bytes bus_addr num_bytes stop d =
     (Inl IOError,
      d\<lparr>trace := trace d @
           [Write start_cmd_data, Write (write_get_ack_cmd_data ((bus_addr AND 0xFE) OR 1)), Read 1],
        rx := rest\<rparr>)"
  using ft_i2c_dev_addr_byte [of "d\<lparr>trace := trace d @ [Write start_cmd_data]\<rparr>" r rest bus_addr True]
  by (simp add: ft_i2c_read_bytes_def bind_ft_def ft_i2c_start_eq)

lemma sbs_block_read_ok:
  assumes "rx d = a1 # a2 # a3 # data @ rest" and "\<not> bit a1 0" and "\<not> bit a2 0" and "\<not> bit a3 0"
    and "0 \<le> reg_addr" and "reg_addr < 256" and "length data = n"
  shows "sbs_block_read bus_addr reg_addr (int n) d =
     (Inr (map uint data),
      d\<lparr>trace := trace d @
           [Write start_cmd_data, Write (write_get_ack_cmd_data (bus_addr AND 0xFE)), Read 1,
            Write (write_get_ack_cmd_data reg_addr), Read 1,
            Write start_cmd_data, Write (write_get_ack_cmd_data ((bus_addr AND 0xFE) OR 1)), Read 1]
           @ concat (map (\<lambda>i. [Write (read_give_ack_cmd_data (i = int n - 1)), Read 1]) (py_range (int n)))
           @ [Write stop_cmd_data],
        rx := rest\<rparr>)"
proof -
  let ?d1 = "d\<lparr>trace := trace d @
           [Write start_cmd_data, Write (write_get_ack_cmd_data (bus_addr AND 0xFE)), Read 1,
            Write (write_get_ack_cmd_data reg_addr), Read 1],
        rx := a3 # data @ rest\<rparr>"
  let ?d2 = "?d1\<lparr>trace := trace ?d1 @
           [Write start_cmd_data, Write (write_get_ack_cmd_data ((bus_addr AND 0xFE) OR 1)), Read 1]
           @ concat (map (\<lambda>i. [Write (read_give_ack_cmd_data (i = int n - 1)), Read 1]) (py_range (int n)))
           @ (if True then [Write stop_cmd_data] else []),
        rx := rest\<rparr>"
  have e1: "ft_i2c_write_reg_addr bus_addr reg_addr False d = (Inr (), ?d1)"
    using assms by (simp add: ft_i2c_write_reg_addr_ack [where rest = "a3 # data @ rest"])
  have e2: "ft_i2c_read_bytes bus_addr (int n) True ?d1 = (Inr (map uint data), ?d2)"
    by (rule ft_i2c_read_bytes_ok [where a = a3]) (use assms in simp_all)
  have "sbs_block_read bus_addr reg_addr (int n) d = (Inr (map uint data), ?d2)"
    unfolding sbs_block_read_def
    by (simp only: bind_ft_Inr [where m = "ft_i2c_write_reg_addr bus_addr reg_addr False", OF e1] e2)
  then show ?thesis by simp
qed

lemma read_words_as_block:
  "i2c_read_words bus_addr reg_addr num_words =
   bind_ft (sbs_block_read bus_addr reg_addr (num_words * 2))
     (\<lambda>rd. lift_ft (unpack_words num_words rd))"
  by (rule ext) (simp add: i2c_read_words_def sbs_block_read_def bind_ft_def split: prod.splits sum.splits)

lemma i2c_read_words_ok:
  assumes "rx d = a1 # a2 # a3 # data @ rest" and "\<not> bit a1 0" and "\<not> bit a2 0" and "\<not> bit a3 0"
    and "0 \<le> reg_addr" and "reg_addr < 256" and "length data = 2 * n"
  shows "i2c_read_words bus_addr reg_addr (int n) d =
     (Inr (le_words (map uint data)),
      d\<lparr>trace := trace d @
           [Write start_cmd_data, Write (write_get_ack_cmd_data (bus_addr AND 0xFE)), Read 1,
            Write (write_get_ack_cmd_data reg_addr), Read 1,
            Write start_cmd_data, Write (write_get_ack_cmd_data ((bus_addr AND 0xFE) OR 1)), Read 1]
           @ concat (map (\<lambda>i. [Write (read_give_ack_cmd_data (i = int (2 * n) - 1)), Read 1])
                (py_range (int (2 * n))))
           @ [Write stop_cmd_data],
        rx := rest\<rparr>)"
proof -
  have m: "int n * 2 = int (2 * n)" by simp
  note e = sbs_block_read_ok [OF assms, of bus_addr]
  show ?thesis
    unfolding read_words_as_block m
    by (simp only: bind_ft_Inr [where m = "sbs_block_read bus_addr reg_addr (int (2 * n))", OF e]
        lift_ft_def unpack_words_ok [OF assms(7)])
qed

lemma i2c_read_words_nack:
  "rx d = r # rest \<Longrightarrow> bit r 0 \<Longrightarrow>
   i2c_read_words bus_addr reg_addr num_words d =
     (Inl IOError,
      d\<lparr>trace := trace d @
           [Write start_cmd_data, Write (write_get_ack_cmd_data (bus_addr AND 0xFE)), Read 1],
        rx := rest\<rparr>)"
  by (simp add: i2c_read_words_def bind_ft_Inl [OF ft_i2c_write_reg_addr_nack])

lemma sbs_block_read_nack:
  "rx d = r # rest \<Longrightarrow> bit r 0 \<Longrightarrow>
   sbs_block_read bus_addr reg_addr num_bytes d =
     (Inl IOError,
      d\<lparr>trace := trace d @
           [Write start_cmd_data, Write (write_get_ack_cmd_data (bus_addr AND 0xFE)), Read 1],
        rx := rest\<rparr>)"
  by (simp add: sbs_block_read_def bind_ft_Inl [OF ft_i2c_write_reg_addr_nack])

lemma sbs_word_read_nack:
  "rx d = r # rest \<Longrightarrow> bit r 0 \<Longrightarrow>
   sbs_word_read bus_addr reg_addr d =
     (Inl IOError,
      d\<lparr>trace := trace d @
           [Write start_cmd_data, Write (write_get_ack_cmd_data (bus_addr AND 0xFE)), Read 1],
        rx := rest\<rparr>)"
  by (simp add: sbs_word_read_def bind_ft_Inl [OF i2c_read_words_nack])

lemma handshakes_append: "handshakes (xs @ ys) = handshakes xs @ handshakes ys"
  by (induction xs rule: handshakes.induct) simp_all

lemma data_reads_append: "data_reads (xs @ ys) = data_reads xs + data_reads ys"
  by (induction xs rule: data_reads.induct) simp_all

lemma bytes_out_append: "bytes_out (xs @ ys) = bytes_out xs @ bytes_out ys"
  by (induction xs rule: bytes_out.induct) simp_all

lemma parse_py_repeat_pins:
  "parse_cmds (py_repeat [CMD_SET_DATABITS_LOW, v, dir] k @ s) =
   map_option ((@) (replicate k (SetBitsLow v dir))) (parse_cmds s)"
proof (induction k)
  case 0
  then show ?case by (simp add: py_repeat_def option.map_ident)
next
  case (Suc k)
  then show ?case
    by (simp add: py_repeat_def option.map_comp comp_def)
qed

lemma parse_start:
  "parse_cmds start_cmd_data =
     Some (replicate 10 (SetBitsLow VAL_SCLHI_SDAHI DIR_SCLOUT_SDAOUT)
           @ replicate 20 (SetBitsLow VAL_SCLHI_SDALO DIR_SCLOUT_SDAOUT)
           @ [SetBitsLow VAL_SCLLO_SDALO DIR_SCLOUT_SDAOUT])"
  unfolding start_cmd_data_def by (simp add: parse_py_repeat_pins)

lemma parse_stop:
  "parse_cmds stop_cmd_data =
     Some (replicate 10 (SetBitsLow VAL_SCLLO_SDALO DIR_SCLOUT_SDAOUT)
           @ replicate 10 (SetBitsLow VAL_SCLHI_SDALO DIR_SCLOUT_SDAOUT)
           @ replicate 10 (SetBitsLow VAL_SCLHI_SDAHI DIR_SCLOUT_SDAOUT)
           @ [SetBitsLow VAL_SCLHI_SDAHI DIR_SCLIN_SDAIN])"
  unfolding stop_cmd_data_def by (simp add: parse_py_repeat_pins)

lemma handshake_bits_pins: "handshake_bits (replicate k (SetBitsLow v dir) @ cs) = handshake_bits cs"
  by (induction k) simp_all

lemma data_reads_of_pins: "data_reads_of (replicate k (SetBitsLow v dir) @ cs) = data_reads_of cs"
  by (induction k) simp_all

lemma bytes_out_of_pins: "bytes_out_of (replicate k (SetBitsLow v dir) @ cs) = bytes_out_of cs"
  by (induction k) simp_all

lemma count_datain_pins: "count_datain (replicate k (SetBitsLow v dir) @ cs) = count_datain cs"
  by (induction k) simp_all

lemma ack_reads_measures:
  "handshakes (concat (replicate k [Write (read_give_ack_cmd_data False), Read m]) @ es) =
     replicate k DATA_SEND_ACK @ handshakes es"
  "data_reads (concat (replicate k [Write (read_give_ack_cmd_data False), Read m]) @ es) =
     k + data_reads es"
  "bytes_out (concat (replicate k [Write (read_give_ack_cmd_data False), Read m]) @ es) =
     bytes_out es"
  by (induction k) (simp_all add: parse_read_give_ack DATASIZE_8BITS_def DATASIZE_1BIT_def)


lemmas measure_simps =
  parse_start parse_stop parse_write_get_ack parse_read_give_ack
  handshake_bits_pins data_reads_of_pins bytes_out_of_pins
  DATASIZE_8BITS_def DATASIZE_1BIT_def

lemma length_py_range: "length (py_range n) = nat n"
  by (simp add: py_range_def)

lemma indexed_reads_measures:
  "data_reads (concat (map (\<lambda>i. [Write (read_give_ack_cmd_data (f i)), Read m]) ix) @ es) =
     length ix + data_reads es"
  "bytes_out (concat (map (\<lambda>i. [Write (read_give_ack_cmd_data (f i)), Read m]) ix) @ es) =
     bytes_out es"
  by (induction ix) (simp_all add: parse_read_give_ack DATASIZE_8BITS_def DATASIZE_1BIT_def)

lemma addr_mask_lsb:
  assumes "drop_bit 1 b = drop_bit 1 (a :: int)"
  shows "b AND 0xFE = a AND 0xFE"
proof (rule bit_eqI)
  fix n
  show "bit (b AND 0xFE) n = bit (a AND 0xFE) n"
  proof (cases n)
    case 0
    then show ?thesis by (simp add: bit_and_iff)
  next
    case (Suc m)
    have "bit b (Suc m) = bit (drop_bit 1 b) m" by (simp add: bit_drop_bit_eq)
    also have "\<dots> = bit (drop_bit 1 a) m" by (simp only: assms)
    also have "\<dots> = bit a (Suc m)" by (simp add: bit_drop_bit_eq)
    finally show ?thesis by (simp add: bit_and_iff Suc)
  qed
qed

lemma ft_i2c_dev_addr_lsb:
  assumes "drop_bit 1 b = drop_bit 1 a"
  shows "ft_i2c_dev_addr b rd = ft_i2c_dev_addr a rd"
  by (simp only: ft_i2c_dev_addr_eq addr_mask_lsb [OF assms])

lemma sbs_block_read_lsb:
  assumes "drop_bit 1 b = drop_bit 1 a"
  shows "sbs_block_read b reg_addr num_bytes = sbs_block_read a reg_addr num_bytes"
  by (simp only: sbs_block_read_def ft_i2c_write_reg_addr_def ft_i2c_read_bytes_def
      ft_i2c_dev_addr_lsb [OF assms])

lemma i2c_read_words_lsb:
  assumes "drop_bit 1 b = drop_bit 1 a"
  shows "i2c_read_words b reg_addr num_words = i2c_read_words a reg_addr num_words"
  by (simp only: read_words_as_block sbs_block_read_lsb [OF assms])

lemma sbs_word_read_lsb:
  assumes "drop_bit 1 b = drop_bit 1 a"
  shows "sbs_word_read b reg_addr = sbs_word_read a reg_addr"
  by (simp only: sbs_word_read_def i2c_read_words_lsb [OF assms])

lemma sbs_word_read_ok:
  assumes "rx d = a1 # a2 # a3 # [lo, hi] @ rest"
    and "\<not> bit a1 0" and "\<not> bit a2 0" and "\<not> bit a3 0"
    and "0 \<le> reg_addr" and "reg_addr < 256"
  shows "fst (sbs_word_read bus_addr reg_addr d) = Inr (uint lo + 256 * uint hi)"
proof -
  have l: "length [lo, hi] = 2 * 1" by simp
  have e: "i2c_read_words bus_addr reg_addr 1 d =
     (Inr [uint lo + 256 * uint hi], snd (i2c_read_words bus_addr reg_addr 1 d))"
    using i2c_read_words_ok [OF assms l, of bus_addr] by simp
  show ?thesis
    unfolding sbs_word_read_def
    by (simp only: bind_ft_Inr [where m = "i2c_read_words bus_addr reg_addr 1", OF e])
      (simp add: lift_ft_def py_first_def)
qed

lemma py_bytes_uint: "py_bytes (map uint (data :: 8 word list)) = Inr (map uint data)"
  by (simp add: py_bytes_def uint_bytes)

lemma stream_discipline_append:
  "stream_discipline xs \<Longrightarrow> stream_discipline ys \<Longrightarrow> stream_discipline (xs @ ys)"
  by (induction xs rule: stream_discipline.induct)
    (auto split: option.splits list.splits event.splits if_splits)

lemma disciplinedI:
  "(\<And>d. \<exists>t. trace (snd (m d)) = trace d @ t \<and> stream_discipline t) \<Longrightarrow> disciplined m"
  by (simp add: disciplined_def)

lemma disciplined_emitted:
  assumes "disciplined m"
  shows "stream_discipline (emitted d (snd (m d)))"
proof -
  from assms obtain t where t: "trace (snd (m d)) = trace d @ t" and ok: "stream_discipline t"
    unfolding disciplined_def by blast
  from emitted_append [OF t] ok show ?thesis by simp
qed

lemma disciplined_return: "disciplined (return_ft x)"
  by (rule disciplinedI) (simp add: return_ft_def)

lemma disciplined_raise: "disciplined (raise_ft e)"
  by (rule disciplinedI) (simp add: raise_ft_def)

lemma disciplined_lift: "disciplined (lift_ft r)"
  by (rule disciplinedI) (simp add: lift_ft_def)

lemma disciplined_bind:
  assumes m: "disciplined m" and f: "\<And>x. disciplined (f x)"
  shows "disciplined (bind_ft m f)"
proof (rule disciplinedI)
  fix d
  from m obtain t where t: "trace (snd (m d)) = trace d @ t" and ok: "stream_discipline t"
    unfolding disciplined_def by blast
  obtain res d' where md: "m d = (res, d')" by (cases "m d")
  show "\<exists>t. trace (snd (bind_ft m f d)) = trace d @ t \<and> stream_discipline t"
  proof (cases res)
    case (Inl e)
    then show ?thesis using md t ok by (auto simp: bind_ft_def)
  next
    case (Inr x)
    from f [of x] obtain u where u: "trace (snd (f x d')) = trace d' @ u"
      and oku: "stream_discipline u"
      unfolding disciplined_def by blast
    have "trace (snd (bind_ft m f d)) = trace d @ (t @ u)"
      using md Inr t u by (simp add: bind_ft_def)
    moreover have "stream_discipline (t @ u)"
      by (rule stream_discipline_append [OF ok oku])
    ultimately show ?thesis by blast
  qed
qed

lemma discipline_start: "stream_discipline [Write start_cmd_data]"
  by (simp add: parse_start count_datain_pins)

lemma discipline_stop: "stream_discipline [Write stop_cmd_data]"
  by (simp add: parse_stop count_datain_pins)

lemma discipline_write_get_ack: "stream_discipline [Write (write_get_ack_cmd_data b), Read 1]"
  by (simp add: parse_write_get_ack)

lemma discipline_read_give_ack: "stream_discipline [Write (read_give_ack_cmd_data nack), Read 1]"
  by (simp add: parse_read_give_ack)

lemma disciplined_start: "disciplined ft_i2c_start"
  by (rule disciplinedI) (simp add: ft_i2c_start_eq parse_start count_datain_pins)

lemma disciplined_stop: "disciplined ft_i2c_stop"
  by (rule disciplinedI) (simp add: ft_i2c_stop_eq parse_stop count_datain_pins)

lemma disciplined_write_get_ack: "disciplined (ft_i2c_write_get_ack b)"
proof (rule disciplinedI)
  fix d
  show "\<exists>t. trace (snd (ft_i2c_write_get_ack b d)) = trace d @ t \<and> stream_discipline t"
  proof (cases "0 \<le> b \<and> b < 256")
    case False
    then have "trace (snd (ft_i2c_write_get_ack b d)) = trace d @ []"
      by (simp add: ft_i2c_write_get_ack_bad)
    then show ?thesis by (intro exI [of _ "[]"]) simp
  next
    case True
    have "trace (snd (ft_i2c_write_get_ack b d)) =
            trace d @ [Write (write_get_ack_cmd_data b), Read 1]"
    proof (cases "rx d")
      case Nil
      with True show ?thesis by (simp add: ft_i2c_write_get_ack_empty)
    next
      case (Cons r rest)
      with True show ?thesis by (simp add: ft_i2c_write_get_ack_byte)
    qed
    then show ?thesis using discipline_write_get_ack by blast
  qed
qed

lemma disciplined_read_give_ack: "disciplined (ft_i2c_read_give_ack nack)"
proof (rule disciplinedI)
  fix d
  have "trace (snd (ft_i2c_read_give_ack nack d)) =
          trace d @ [Write (read_give_ack_cmd_data nack), Read 1]"
  proof (cases "rx d")
    case Nil
    then show ?thesis by (simp add: ft_i2c_read_give_ack_empty)
  next
    case (Cons r rest)
    then show ?thesis by (simp add: ft_i2c_read_give_ack_byte)
  qed
  then show "\<exists>t. trace (snd (ft_i2c_read_give_ack nack d)) = trace d @ t \<and> stream_discipline t"
    using discipline_read_give_ack by blast
qed

lemma disciplined_dev_addr: "disciplined (ft_i2c_dev_addr bus_addr rd)"
  by (simp only: ft_i2c_dev_addr_eq disciplined_write_get_ack)

lemma disciplined_write_reg_addr: "disciplined (ft_i2c_write_reg_addr bus_addr reg_addr stop)"
  unfolding ft_i2c_write_reg_addr_def
  by (intro disciplined_bind disciplined_start disciplined_dev_addr disciplined_write_get_ack)
    (simp add: disciplined_stop disciplined_return)

lemma read_loop_Cons:
  "read_loop (i # ix) n out_data =
   bind_ft (ft_i2c_read_give_ack (i = n - 1)) (\<lambda>b. read_loop ix n (out_data @ [b]))"
  by (rule ext) (simp add: bind_ft_def)

lemma disciplined_read_loop: "disciplined (read_loop ix n out_data)"
proof (induction ix arbitrary: out_data)
  case Nil
  show ?case by (rule disciplinedI) simp
next
  case (Cons i ix)
  show ?case
    unfolding read_loop_Cons
    by (intro disciplined_bind disciplined_read_give_ack Cons.IH)
qed

lemma disciplined_read_bytes: "disciplined (ft_i2c_read_bytes bus_addr num_bytes stop)"
  unfolding ft_i2c_read_bytes_def
  by (intro disciplined_bind disciplined_start disciplined_dev_addr disciplined_read_loop
      disciplined_return)
    (simp add: disciplined_stop disciplined_return)

lemma disciplined_sbs_block_read: "disciplined (sbs_block_read bus_addr reg_addr num_bytes)"
  unfolding sbs_block_read_def
  by (intro disciplined_bind disciplined_write_reg_addr disciplined_read_bytes)

lemma disciplined_i2c_read_words: "disciplined (i2c_read_words bus_addr reg_addr num_words)"
  unfolding i2c_read_words_def
  by (intro disciplined_bind disciplined_write_reg_addr disciplined_read_bytes disciplined_lift)

lemma disciplined_sbs_word_read: "disciplined (sbs_word_read bus_addr reg_addr)"
  unfolding sbs_word_read_def
  by (intro disciplined_bind disciplined_i2c_read_words disciplined_lift)


lemma clock_div_eq: "clock_div = 74"
  by (simp add: clock_div_def py_int_of_float_def)

lemma ftd2xx_init_eq:
  "ftd2xx_init d =
     (Inr (),
      d\<lparr>trace := trace d @
           [SetLatencyTimer 8, SetBitMode 0 0, SetBitMode 0 2,
            Write [CMD_CLKDIV_DISABLE, 1], Write [CMD_SET_CLOCK, 74, 0], Read 2,
            Write [CMD_SET_DATABITS_LOW, 0x13, 0x13]],
        rx := drop 2 (rx d)\<rparr>)"
proof -
  have w1: "list_all (\<lambda>b. 0 \<le> b \<and> b < 256) [CMD_CLKDIV_DISABLE, 1]"
    by (simp add: mpsse_consts)
  have w2: "list_all (\<lambda>b. 0 \<le> b \<and> b < 256) [CMD_SET_CLOCK, 74, 0]"
    by (simp add: mpsse_consts)
  have w3: "list_all (\<lambda>b. 0 \<le> b \<and> b < 256) [CMD_SET_DATABITS_LOW, 0x13, 0x13]"
    by (simp add: mpsse_consts)
  show ?thesis
    by (simp add: ftd2xx_init_def clock_div_eq bind_ft_def ft_write_ok [OF w1] ft_write_ok [OF w2]
        ft_write_ok [OF w3] ft_read_eq return_ft_def dev_setLatencyTimer_def dev_setBitMode_def)
qed

lemma emitted_write_get_ack:
  "0 \<le> b \<Longrightarrow> b < 256 \<Longrightarrow>
   emitted d (snd (ft_i2c_write_get_ack b d)) = [Write (write_get_ack_cmd_data b), Read 1]"
  by (rule emitted_append, cases "rx d")
    (simp_all add: ft_i2c_write_get_ack_empty ft_i2c_write_get_ack_byte)

lemma emitted_read_give_ack:
  "emitted d (snd (ft_i2c_read_give_ack nack d)) = [Write (read_give_ack_cmd_data nack), Read 1]"
  by (rule emitted_append, cases "rx d")
    (simp_all add: ft_i2c_read_give_ack_empty ft_i2c_read_give_ack_byte)

section \<open>Properties of the engine\<close>

text \<open>
  Claim C1. For every \<open>num_words\<close> (in particular every one in 1..16), on a bus that
  acknowledges the three address and pointer bytes and then delivers the
  \<open>2 * num_words\<close> bytes \<open>data\<close>, \<open>i2c_read_words\<close> performs \<open>2 * num_words\<close>
  data-byte reads, consumes exactly those bytes and returns \<open>num_words\<close> values, the
  \<open>k\<close>-th being byte \<open>2k\<close> plus 256 times byte \<open>2k + 1\<close>, an unsigned 16-bit value.
  The instance that follows the theorem decodes the raw bytes 0x34, 0x12, 0x78, 0x56
  to 0x1234, 0x5678.
\<close>

theorem C1_read_words_little_endian:
  assumes "rx d = a1 # a2 # a3 # data @ rest"
    and "\<not> bit a1 0" and "\<not> bit a2 0" and "\<not> bit a3 0"
    and "0 \<le> reg_addr" and "reg_addr < 256" and "length data = 2 * n"
  shows "fst (i2c_read_words bus_addr reg_addr (int n) d) = Inr (le_words (map uint data)) \<and>
         rx (snd (i2c_read_words bus_addr reg_addr (int n) d)) = rest \<and>
         data_reads (emitted d (snd (i2c_read_words bus_addr reg_addr (int n) d))) = 2 * n \<and>
         length (le_words (map uint data)) = n \<and>
         (\<forall>k<n. le_words (map uint data) ! k =
                  uint (data ! (2 * k)) + 256 * uint (data ! (2 * k + 1)) \<and>
                0 \<le> le_words (map uint data) ! k \<and>
                le_words (map uint data) ! k < 65536)"
proof -
  let ?t = "[Write start_cmd_data, Write (write_get_ack_cmd_data (bus_addr AND 0xFE)), Read 1,
            Write (write_get_ack_cmd_data reg_addr), Read 1,
            Write start_cmd_data, Write (write_get_ack_cmd_data ((bus_addr AND 0xFE) OR 1)), Read 1]
           @ concat (map (\<lambda>i. [Write (read_give_ack_cmd_data (i = int (2 * n) - 1)), Read 1])
                (py_range (int (2 * n))))
           @ [Write stop_cmd_data]"
  note run = i2c_read_words_ok [OF assms, of bus_addr]
  have em: "emitted d (snd (i2c_read_words bus_addr reg_addr (int n) d)) = ?t"
    by (rule emitted_append) (simp add: run)
  have dr: "data_reads ?t = 2 * n"
    by (simp add: measure_simps indexed_reads_measures length_py_range)
  have len: "length (le_words (map uint data)) = n"
    by (simp add: length_le_words assms(7))
  have nth: "le_words (map uint data) ! k =
               uint (data ! (2 * k)) + 256 * uint (data ! (2 * k + 1)) \<and>
             0 \<le> le_words (map uint data) ! k \<and> le_words (map uint data) ! k < 65536"
    if "k < n" for k
  proof -
    have e: "le_words (map uint data) ! k = uint (data ! (2 * k)) + 256 * uint (data ! (2 * k + 1))"
      using that assms(7) by (simp add: nth_le_words)
    have "uint (data ! (2 * k)) < 2 ^ LENGTH(8)" and "uint (data ! (2 * k + 1)) < 2 ^ LENGTH(8)"
      by (rule uint_lt2p)+
    moreover have "0 \<le> uint (data ! (2 * k))" and "0 \<le> uint (data ! (2 * k + 1))"
      by simp_all
    ultimately show ?thesis unfolding e by simp
  qed
  show ?thesis
  proof (intro conjI allI impI)
    show "fst (i2c_read_words bus_addr reg_addr (int n) d) = Inr (le_words (map uint data))"
      by (simp add: run)
    show "rx (snd (i2c_read_words bus_addr reg_addr (int n) d)) = rest"
      by (simp add: run)
    show "data_reads (emitted d (snd (i2c_read_words bus_addr reg_addr (int n) d))) = 2 * n"
      unfolding em by (rule dr)
    show "length (le_words (map uint data)) = n" by (rule len)
  next
    fix k assume "k < n"
    from nth [OF this]
    show "le_words (map uint data) ! k = uint (data ! (2 * k)) + 256 * uint (data ! (2 * k + 1))"
      and "0 \<le> le_words (map uint data) ! k"
      and "le_words (map uint data) ! k < 65536"
      by blast+
  qed
qed

theorem C1_read_words_little_endian_witness:
  "fst (i2c_read_words 0x6C 0x00 2
         \<lparr>trace = [], rx = [0, 0, 0, 0x34, 0x12, 0x78, 0x56]\<rparr>) = Inr [0x1234, 0x5678]"
proof -
  let ?d = "\<lparr>trace = [], rx = [0, 0, 0, 0x34, 0x12, 0x78, 0x56 :: 8 word]\<rparr>"
  have r: "rx ?d = 0 # 0 # 0 # [0x34, 0x12, 0x78, 0x56] @ []" by simp
  have a: "\<not> bit (0 :: 8 word) 0" by simp
  have g: "(0::int) \<le> 0x00" "(0x00::int) < 256" by simp_all
  have l: "length [0x34, 0x12, 0x78, 0x56 :: 8 word] = 2 * 2" by simp
  show ?thesis
    using C1_read_words_little_endian [OF r a a a g l, of "0x6C", THEN conjunct1]
    by simp
qed

text \<open>
  Claim C2. For every \<open>N \<ge> 1\<close>, an addressed \<open>N\<close>-byte read on a bus that
  acknowledges the address and delivers \<open>N\<close> bytes writes START, then the device
  address with the read flag set, then \<open>N\<close> read-with-handshake streams, each followed
  by the read of one response byte: the first \<open>N - 1\<close> clock out ACK (0x00), the last
  one clocks out NACK (0x80); STOP follows when asked for. The handshake bits of the whole
  call are thus \<open>N - 1\<close> times ACK and then one NACK.
\<close>

theorem C2_read_handshakes:
  assumes "1 \<le> n" and "rx d = a # data @ rest" and "\<not> bit a 0" and "length data = n"
  shows "ft_i2c_read_bytes bus_addr (int n) stop d =
           (Inr (map uint data),
            d\<lparr>trace := trace d @
                 [Write start_cmd_data,
                  Write (write_get_ack_cmd_data ((bus_addr AND 0xFE) OR 1)), Read 1]
                 @ concat (replicate (n - 1) [Write (read_give_ack_cmd_data False), Read 1])
                 @ [Write (read_give_ack_cmd_data True), Read 1]
                 @ (if stop then [Write stop_cmd_data] else []),
              rx := rest\<rparr>) \<and>
         handshakes (emitted d (snd (ft_i2c_read_bytes bus_addr (int n) stop d))) =
           replicate (n - 1) DATA_SEND_ACK @ [DATA_SEND_NACK] \<and>
         DATA_SEND_ACK = 0x00 \<and> DATA_SEND_NACK = 0x80 \<and>
         data_reads (emitted d (snd (ft_i2c_read_bytes bus_addr (int n) stop d))) = n \<and>
         bytes_out (emitted d (snd (ft_i2c_read_bytes bus_addr (int n) stop d))) =
           [(bus_addr AND 0xFE) OR 1]"
proof -
  let ?t = "[Write start_cmd_data,
             Write (write_get_ack_cmd_data ((bus_addr AND 0xFE) OR 1)), Read 1]
            @ concat (replicate (n - 1) [Write (read_give_ack_cmd_data False), Read 1])
            @ [Write (read_give_ack_cmd_data True), Read 1]
            @ (if stop then [Write stop_cmd_data] else [])"
  have run: "ft_i2c_read_bytes bus_addr (int n) stop d =
      (Inr (map uint data), d\<lparr>trace := trace d @ ?t, rx := rest\<rparr>)"
    using ft_i2c_read_bytes_ok [OF assms(2,3,4), of bus_addr stop]
    by (simp only: handshake_schedule [OF assms(1)] append_assoc)
  have em: "emitted d (snd (ft_i2c_read_bytes bus_addr (int n) stop d)) = ?t"
    by (rule emitted_append) (simp add: run)
  have hs: "handshakes ?t = replicate (n - 1) DATA_SEND_ACK @ [DATA_SEND_NACK]"
    by (cases stop)
      (simp_all add: measure_simps ack_reads_measures)
  have dr: "data_reads ?t = n"
    using assms(1)
    by (cases stop)
      (simp_all add: measure_simps ack_reads_measures)
  have bo: "bytes_out ?t = [(bus_addr AND 0xFE) OR 1]"
    by (cases stop)
      (simp_all add: measure_simps ack_reads_measures)
  show ?thesis
    unfolding em using run hs dr bo by (simp add: DATA_SEND_ACK_def DATA_SEND_NACK_def)
qed

theorem C2_read_handshakes_witness:
  "fst (ft_i2c_read_bytes 0x6C 3 True \<lparr>trace = [], rx = [0, 0x11, 0x22, 0x33]\<rparr>) =
     Inr [0x11, 0x22, 0x33] \<and>
   handshakes (emitted \<lparr>trace = [], rx = [0, 0x11, 0x22, 0x33]\<rparr>
     (snd (ft_i2c_read_bytes 0x6C 3 True \<lparr>trace = [], rx = [0, 0x11, 0x22, 0x33]\<rparr>))) =
     [0x00, 0x00, 0x80]"
proof -
  let ?d = "\<lparr>trace = [], rx = [0, 0x11, 0x22, 0x33 :: 8 word]\<rparr>"
  have n: "1 \<le> (3::nat)" by simp
  have r: "rx ?d = 0 # [0x11, 0x22, 0x33] @ []" by simp
  have a: "\<not> bit (0 :: 8 word) 0" by simp
  have l: "length [0x11, 0x22, 0x33 :: 8 word] = 3" by simp
  note t = C2_read_handshakes [OF n r a l, of "0x6C" True]
  have 1: "fst (ft_i2c_read_bytes 0x6C 3 True ?d) = Inr [0x11, 0x22, 0x33]"
    using t [THEN conjunct1] by simp
  have 2: "handshakes (emitted ?d (snd (ft_i2c_read_bytes 0x6C 3 True ?d))) = [0x00, 0x00, 0x80]"
    using t [THEN conjunct2, THEN conjunct1]
    by (simp add: DATA_SEND_ACK_def DATA_SEND_NACK_def numeral_3_eq_3)
  show ?thesis using 1 2 by (rule conjI)
qed

text \<open>
  Claim C3. For every data byte and every response byte \<open>r\<close> the transport returns,
  the write-with-ack primitive raises \<open>IOError\<close> exactly when bit 0 of \<open>r\<close> is 1.
  When bit 0 is 0 it returns normally, with no value (the response byte is consumed), and
  an addressed read whose address byte was acknowledged by \<open>r\<close> returns the data bytes
  that follow \<open>r\<close> in the queue and not \<open>r\<close> itself.
\<close>

theorem C3_write_get_ack_fault:
  assumes "0 \<le> data" and "data < 256" and "rx d = r # rest"
  shows "(fst (ft_i2c_write_get_ack data d) = Inl IOError) = bit r 0 \<and>
         (\<not> bit r 0 \<longrightarrow>
            ft_i2c_write_get_ack data d =
              (Inr (), d\<lparr>trace := trace d @ [Write (write_get_ack_cmd_data data), Read 1],
                         rx := rest\<rparr>)) \<and>
         (\<not> bit r 0 \<longrightarrow>
            (\<forall>bus_addr stop bs rest'. rest = bs @ rest' \<longrightarrow>
               fst (ft_i2c_read_bytes bus_addr (int (length bs)) stop d) = Inr (map uint bs)))"
proof (intro conjI impI allI)
  show "(fst (ft_i2c_write_get_ack data d) = Inl IOError) = bit r 0"
    using assms by (simp add: ft_i2c_write_get_ack_byte)
next
  assume "\<not> bit r 0"
  then show "ft_i2c_write_get_ack data d =
      (Inr (), d\<lparr>trace := trace d @ [Write (write_get_ack_cmd_data data), Read 1], rx := rest\<rparr>)"
    using assms by (simp add: ft_i2c_write_get_ack_byte)
next
  fix bus_addr stop bs rest'
  assume "\<not> bit r 0" and "rest = bs @ rest'"
  then have "rx d = r # bs @ rest'" using assms by simp
  from ft_i2c_read_bytes_ok [OF this \<open>\<not> bit r 0\<close> refl]
  show "fst (ft_i2c_read_bytes bus_addr (int (length bs)) stop d) = Inr (map uint bs)"
    by simp
qed

theorem C3_write_get_ack_fault_witness:
  "fst (ft_i2c_write_get_ack 0x6C \<lparr>trace = [], rx = [0xFE, 0x34]\<rparr>) \<noteq> Inl IOError \<and>
   ft_i2c_write_get_ack 0x6C \<lparr>trace = [], rx = [0xFE, 0x34]\<rparr> =
     (Inr (), \<lparr>trace = [Write (write_get_ack_cmd_data 0x6C), Read 1], rx = [0x34]\<rparr>) \<and>
   fst (ft_i2c_read_bytes 0x6C 1 True \<lparr>trace = [], rx = [0xFE, 0x34]\<rparr>) = Inr [0x34] \<and>
   fst (ft_i2c_write_get_ack 0x6C \<lparr>trace = [], rx = [0x01, 0x34]\<rparr>) = Inl IOError"
proof -
  let ?d = "\<lparr>trace = [], rx = [0xFE, 0x34 :: 8 word]\<rparr>"
  let ?e = "\<lparr>trace = [], rx = [0x01, 0x34 :: 8 word]\<rparr>"
  have a: "\<not> bit (0xFE :: 8 word) 0" and b: "bit (0x01 :: 8 word) 0" by simp_all
  have p: "(0::int) \<le> 0x6C" "(0x6C::int) < 256" by simp_all
  have rd: "rx ?d = 0xFE # [0x34]" and re: "rx ?e = 0x01 # [0x34]" by simp_all
  note td = C3_write_get_ack_fault [OF p rd]
  note te = C3_write_get_ack_fault [OF p re]
  have 1: "fst (ft_i2c_write_get_ack 0x6C ?d) \<noteq> Inl IOError"
    using td [THEN conjunct1] a by simp
  have 2: "ft_i2c_write_get_ack 0x6C ?d =
     (Inr (), \<lparr>trace = [Write (write_get_ack_cmd_data 0x6C), Read 1], rx = [0x34]\<rparr>)"
    using td [THEN conjunct2, THEN conjunct1, rule_format, OF a] by simp
  have "fst (ft_i2c_read_bytes 0x6C (int (length [0x34 :: 8 word])) True ?d) = Inr (map uint [0x34 :: 8 word])"
    by (rule td [THEN conjunct2, THEN conjunct2, rule_format, OF a, of "[0x34]" "[]"]) simp
  then have 3: "fst (ft_i2c_read_bytes 0x6C 1 True ?d) = Inr [0x34]" by simp
  have 4: "fst (ft_i2c_write_get_ack 0x6C ?e) = Inl IOError"
    using te [THEN conjunct1] b by simp
  show ?thesis using 1 2 3 4 by blast
qed

text \<open>
  Claim C4. For every device address \<open>a\<close> (every integer, so every one in 0..255) and
  every read flag \<open>r\<close>, sending the device address is the write-with-ack of the byte
  \<open>(a AND 0xFE) OR (if r then 1 else 0)\<close>, and that byte is the one byte the call clocks
  out on the bus.
\<close>

theorem C4_address_framing:
  "ft_i2c_dev_addr a r d = ft_i2c_write_get_ack ((a AND 0xFE) OR (if r then 1 else 0)) d \<and>
   bytes_out (emitted d (snd (ft_i2c_dev_addr a r d))) = [(a AND 0xFE) OR (if r then 1 else 0)]"
proof -
  let ?b = "(a AND 0xFE) OR (if r then 1 else 0)"
  have "trace (snd (ft_i2c_dev_addr a r d)) = trace d @ [Write (write_get_ack_cmd_data ?b), Read 1]"
  proof (cases "rx d")
    case Nil
    then show ?thesis by (simp only: ft_i2c_dev_addr_empty) simp
  next
    case (Cons x xs)
    then show ?thesis by (simp only: ft_i2c_dev_addr_byte) simp
  qed
  then have "emitted d (snd (ft_i2c_dev_addr a r d)) = [Write (write_get_ack_cmd_data ?b), Read 1]"
    by (rule emitted_append)
  then show ?thesis
    by (simp add: ft_i2c_dev_addr_eq parse_write_get_ack DATASIZE_8BITS_def)
qed

theorem C4_address_framing_witness:
  "bytes_out (emitted \<lparr>trace = [], rx = [0]\<rparr>
      (snd (ft_i2c_dev_addr 0x6D False \<lparr>trace = [], rx = [0]\<rparr>))) = [0x6C] \<and>
   bytes_out (emitted \<lparr>trace = [], rx = [0]\<rparr>
      (snd (ft_i2c_dev_addr 0x6C True \<lparr>trace = [], rx = [0]\<rparr>))) = [0x6D]"
  using C4_address_framing [of "0x6D" False "\<lparr>trace = [], rx = [0]\<rparr>", THEN conjunct2]
    C4_address_framing [of "0x6C" True "\<lparr>trace = [], rx = [0]\<rparr>", THEN conjunct2]
  by simp

text \<open>
  Claim C5. When the response to the device-address write of the register-pointer phase
  has its NACK bit set, \<open>i2c_read_words\<close>, \<open>sbs_block_read\<close> and \<open>sbs_word_read\<close>
  raise \<open>IOError\<close>, for every bus address, register address and length. All each call
  has done on the transport is START, the write of the address byte (write flag) and the
  read of its response: no register pointer, no read-phase address, no data-byte read and
  no handshake bit is transmitted.
\<close>

theorem C5_address_nack_aborts:
  assumes "rx d = r # rest" and "bit r 0"
  shows "fst (i2c_read_words bus_addr reg_addr num_words d) = Inl IOError \<and>
         fst (sbs_block_read bus_addr reg_addr num_bytes d) = Inl IOError \<and>
         fst (sbs_word_read bus_addr reg_addr d) = Inl IOError \<and>
         emitted d (snd (i2c_read_words bus_addr reg_addr num_words d)) =
           [Write start_cmd_data, Write (write_get_ack_cmd_data (bus_addr AND 0xFE)), Read 1] \<and>
         emitted d (snd (sbs_block_read bus_addr reg_addr num_bytes d)) =
           [Write start_cmd_data, Write (write_get_ack_cmd_data (bus_addr AND 0xFE)), Read 1] \<and>
         emitted d (snd (sbs_word_read bus_addr reg_addr d)) =
           [Write start_cmd_data, Write (write_get_ack_cmd_data (bus_addr AND 0xFE)), Read 1] \<and>
         bytes_out [Write start_cmd_data, Write (write_get_ack_cmd_data (bus_addr AND 0xFE)), Read 1] =
           [bus_addr AND 0xFE] \<and>
         data_reads [Write start_cmd_data, Write (write_get_ack_cmd_data (bus_addr AND 0xFE)), Read 1] = 0 \<and>
         handshakes [Write start_cmd_data, Write (write_get_ack_cmd_data (bus_addr AND 0xFE)), Read 1] = []"
proof -
  note w = i2c_read_words_nack [OF assms, of bus_addr reg_addr num_words]
  note b = sbs_block_read_nack [OF assms, of bus_addr reg_addr num_bytes]
  note s = sbs_word_read_nack [OF assms, of bus_addr reg_addr]
  have ew: "emitted d (snd (i2c_read_words bus_addr reg_addr num_words d)) =
           [Write start_cmd_data, Write (write_get_ack_cmd_data (bus_addr AND 0xFE)), Read 1]"
    by (rule emitted_append) (simp add: w)
  have eb: "emitted d (snd (sbs_block_read bus_addr reg_addr num_bytes d)) =
           [Write start_cmd_data, Write (write_get_ack_cmd_data (bus_addr AND 0xFE)), Read 1]"
    by (rule emitted_append) (simp add: b)
  have es: "emitted d (snd (sbs_word_read bus_addr reg_addr d)) =
           [Write start_cmd_data, Write (write_get_ack_cmd_data (bus_addr AND 0xFE)), Read 1]"
    by (rule emitted_append) (simp add: s)
  have m: "bytes_out [Write start_cmd_data, Write (write_get_ack_cmd_data (bus_addr AND 0xFE)), Read 1] =
           [bus_addr AND 0xFE]"
    "data_reads [Write start_cmd_data, Write (write_get_ack_cmd_data (bus_addr AND 0xFE)), Read 1] = 0"
    "handshakes [Write start_cmd_data, Write (write_get_ack_cmd_data (bus_addr AND 0xFE)), Read 1] = []"
    by (simp_all add: measure_simps)
  show ?thesis
    unfolding ew eb es using m by (simp add: w b s)
qed

theorem C5_address_nack_aborts_witness:
  "fst (i2c_read_words 0x6C 0x10 16 \<lparr>trace = [], rx = [1, 0, 0, 7]\<rparr>) = Inl IOError \<and>
   fst (sbs_block_read 0x16 0x20 6 \<lparr>trace = [], rx = [1, 0, 0, 7]\<rparr>) = Inl IOError \<and>
   fst (sbs_word_read 0x16 0x09 \<lparr>trace = [], rx = [1, 0, 0, 7]\<rparr>) = Inl IOError \<and>
   emitted \<lparr>trace = [], rx = [1, 0, 0, 7]\<rparr>
     (snd (i2c_read_words 0x6C 0x10 16 \<lparr>trace = [], rx = [1, 0, 0, 7]\<rparr>)) =
     [Write start_cmd_data, Write (write_get_ack_cmd_data 0x6C), Read 1]"
proof -
  let ?d = "\<lparr>trace = [], rx = [1, 0, 0, 7 :: 8 word]\<rparr>"
  have r: "rx ?d = 1 # [0, 0, 7]" by simp
  have n: "bit (1 :: 8 word) 0" by simp
  have 1: "fst (i2c_read_words 0x6C 0x10 16 ?d) = Inl IOError"
    using C5_address_nack_aborts [OF r n] by blast
  have 2: "fst (sbs_block_read 0x16 0x20 6 ?d) = Inl IOError"
    using C5_address_nack_aborts [OF r n] by blast
  have 3: "fst (sbs_word_read 0x16 0x09 ?d) = Inl IOError"
    using C5_address_nack_aborts [OF r n] by blast
  have "emitted ?d (snd (i2c_read_words 0x6C 0x10 16 ?d)) =
     [Write start_cmd_data, Write (write_get_ack_cmd_data (0x6C AND 0xFE)), Read 1]"
    using C5_address_nack_aborts [OF r n, of "0x6C" "0x10" 16] by blast
  then have 4: "emitted ?d (snd (i2c_read_words 0x6C 0x10 16 ?d)) =
     [Write start_cmd_data, Write (write_get_ack_cmd_data 0x6C), Read 1]"
    by simp
  show ?thesis using 1 2 3 4 by blast
qed

text \<open>
  Claim C6. Every START is one stream of set-pins commands whose pin states run
  (SCL high, SDA high) ten times, (SCL high, SDA low) twenty times, then (SCL low, SDA low)
  once, both lines driven. Every STOP is one stream that runs (SCL low, SDA low),
  (SCL high, SDA low) and (SCL high, SDA high) ten times each, both lines driven, then
  releases both lines to inputs with one command. Each dwell phase is thus at least ten
  identical commands.
\<close>

theorem C6_start_stop_sequences:
  "ft_i2c_start d = (Inr (), d\<lparr>trace := trace d @ [Write start_cmd_data]\<rparr>) \<and>
   pin_phases start_cmd_data =
     Some [(Pins True True True True, 10), (Pins True False True True, 20),
           (Pins False False True True, 1)] \<and>
   ft_i2c_stop d = (Inr (), d\<lparr>trace := trace d @ [Write stop_cmd_data]\<rparr>) \<and>
   pin_phases stop_cmd_data =
     Some [(Pins False False True True, 10), (Pins True False True True, 10),
           (Pins True True True True, 10), (Pins True True False False, 1)]"
proof -
  have a: "pin_phases start_cmd_data =
     Some [(Pins True True True True, 10), (Pins True False True True, 20),
           (Pins False False True True, 1)]"
    by code_simp
  have b: "pin_phases stop_cmd_data =
     Some [(Pins False False True True, 10), (Pins True False True True, 10),
           (Pins True True True True, 10), (Pins True True False False, 1)]"
    by code_simp
  show ?thesis using a b by (simp add: ft_i2c_start_eq ft_i2c_stop_eq)
qed


theorem C6_start_stop_sequences_witness:
  "emitted \<lparr>trace = [], rx = []\<rparr> (snd (ft_i2c_start \<lparr>trace = [], rx = []\<rparr>)) =
     [Write start_cmd_data] \<and>
   emitted \<lparr>trace = [], rx = []\<rparr> (snd (ft_i2c_stop \<lparr>trace = [], rx = []\<rparr>)) =
     [Write stop_cmd_data] \<and>
   map_option (map snd) (pin_phases start_cmd_data) = Some [10, 20, 1] \<and>
   map_option (map snd) (pin_phases stop_cmd_data) = Some [10, 10, 10, 1]"
  using C6_start_stop_sequences [of "\<lparr>trace = [], rx = []\<rparr>"]
  by (simp add: emitted_def)

text \<open>
  Claim C7. Let the bit-banged bus acknowledge the address and pointer bytes and deliver
  the bytes \<open>data\<close>, and let the native bus deliver the same bytes \<open>data\<close> for the
  same device address (\<open>bus_addr >> 1\<close>) and register address. Then
  \<open>i2c_read_words\<close>, \<open>sbs_block_read\<close> and \<open>sbs_word_read\<close> return the same
  results in both backends: the words are the little-endian pairs of \<open>data\<close>, the block
  is \<open>data\<close> in wire order. (The tuple, list and \<^verbatim>\<open>bytes\<close> values of the source are
  all sequences of integers here.) Moreover an address \<open>b\<close> that differs from
  \<open>bus_addr\<close> at most in its lowest bit gives the same behaviour, in each backend and
  for each operation.
\<close>

theorem C7_backends_agree:
  assumes "rx d = a1 # a2 # a3 # data @ rest"
    and "\<not> bit a1 0" and "\<not> bit a2 0" and "\<not> bit a3 0"
    and "0 \<le> reg_addr" and "reg_addr < 256"
    and "bus (drop_bit 1 bus_addr) reg_addr (int (length data)) = Inr (map uint data)"
    and "drop_bit 1 b = drop_bit 1 bus_addr"
  shows "(\<forall>n. length data = 2 * n \<longrightarrow>
            fst (i2c_read_words bus_addr reg_addr (int n) d) =
              smbus2_i2c_read_words bus bus_addr reg_addr (int n) \<and>
            smbus2_i2c_read_words bus bus_addr reg_addr (int n) =
              Inr (le_words (map uint data))) \<and>
         fst (sbs_block_read bus_addr reg_addr (int (length data)) d) =
           smbus2_sbs_block_read bus bus_addr reg_addr (int (length data)) \<and>
         smbus2_sbs_block_read bus bus_addr reg_addr (int (length data)) = Inr (map uint data) \<and>
         (length data = 2 \<longrightarrow>
            fst (sbs_word_read bus_addr reg_addr d) = smbus2_sbs_word_read bus bus_addr reg_addr \<and>
            smbus2_sbs_word_read bus bus_addr reg_addr =
              Inr (uint (data ! 0) + 256 * uint (data ! 1))) \<and>
         i2c_read_words b reg_addr nw = i2c_read_words bus_addr reg_addr nw \<and>
         sbs_block_read b reg_addr nb = sbs_block_read bus_addr reg_addr nb \<and>
         sbs_word_read b reg_addr = sbs_word_read bus_addr reg_addr \<and>
         smbus2_i2c_read_words bus b reg_addr nw = smbus2_i2c_read_words bus bus_addr reg_addr nw \<and>
         smbus2_sbs_block_read bus b reg_addr nb = smbus2_sbs_block_read bus bus_addr reg_addr nb \<and>
         smbus2_sbs_word_read bus b reg_addr = smbus2_sbs_word_read bus bus_addr reg_addr"
proof (intro conjI allI impI)
  fix n assume len: "length data = 2 * n"
  have i: "int n * 2 = int (length data)" using len by simp
  show native: "smbus2_i2c_read_words bus bus_addr reg_addr (int n) = Inr (le_words (map uint data))"
    by (simp only: smbus2_i2c_read_words_def i assms(7) sum.case unpack_words_ok [OF len])
  show "fst (i2c_read_words bus_addr reg_addr (int n) d) =
          smbus2_i2c_read_words bus bus_addr reg_addr (int n)"
    unfolding native using i2c_read_words_ok [OF assms(1-6) len, of bus_addr] by simp
next
  show native: "smbus2_sbs_block_read bus bus_addr reg_addr (int (length data)) = Inr (map uint data)"
    by (simp only: smbus2_sbs_block_read_def assms(7) sum.case py_bytes_uint)
  show "fst (sbs_block_read bus_addr reg_addr (int (length data)) d) =
           smbus2_sbs_block_read bus bus_addr reg_addr (int (length data))"
    unfolding native using sbs_block_read_ok [OF assms(1-6) refl, of bus_addr] by simp
next
  assume len: "length data = 2"
  then obtain lo hi where d2: "data = [lo, hi]"
    by (cases data; cases "tl data") auto
  have l1: "length data = 2 * 1" using len by simp
  have "unpack_words 1 (map uint data) = Inr (le_words (map uint data))"
    using unpack_words_ok [OF l1] by simp
  then have u: "unpack_words 1 (map uint data) = Inr [uint lo + 256 * uint hi]"
    by (simp add: d2)
  have b2: "bus (drop_bit 1 bus_addr) reg_addr 2 = Inr (map uint data)"
    using assms(7) len by simp
  show native: "smbus2_sbs_word_read bus bus_addr reg_addr =
              Inr (uint (data ! 0) + 256 * uint (data ! 1))"
    unfolding smbus2_sbs_word_read_def
    by (simp only: b2 sum.case u) (simp add: py_first_def d2)
  have r: "rx d = a1 # a2 # a3 # [lo, hi] @ rest" using assms(1) d2 by simp
  show "fst (sbs_word_read bus_addr reg_addr d) = smbus2_sbs_word_read bus bus_addr reg_addr"
    unfolding native using sbs_word_read_ok [OF r assms(2-6), of bus_addr] by (simp add: d2)
next
  show "i2c_read_words b reg_addr nw = i2c_read_words bus_addr reg_addr nw"
    by (rule i2c_read_words_lsb [OF assms(8)])
  show "sbs_block_read b reg_addr nb = sbs_block_read bus_addr reg_addr nb"
    by (rule sbs_block_read_lsb [OF assms(8)])
  show "sbs_word_read b reg_addr = sbs_word_read bus_addr reg_addr"
    by (rule sbs_word_read_lsb [OF assms(8)])
  show "smbus2_i2c_read_words bus b reg_addr nw = smbus2_i2c_read_words bus bus_addr reg_addr nw"
    by (simp only: smbus2_i2c_read_words_def assms(8))
  show "smbus2_sbs_block_read bus b reg_addr nb = smbus2_sbs_block_read bus bus_addr reg_addr nb"
    by (simp only: smbus2_sbs_block_read_def assms(8))
  show "smbus2_sbs_word_read bus b reg_addr = smbus2_sbs_word_read bus bus_addr reg_addr"
    by (simp only: smbus2_sbs_word_read_def assms(8))
qed


theorem C7_backends_agree_witness:
  "fst (i2c_read_words 0x6C 0x09 1 \<lparr>trace = [], rx = [0, 0, 0, 0x34, 0x12]\<rparr>) = Inr [0x1234] \<and>
   smbus2_i2c_read_words
     (\<lambda>a r n. if a = 0x36 \<and> r = 0x09 \<and> n = 2 then Inr [0x34, 0x12] else Inl IOError)
     0x6C 0x09 1 = Inr [0x1234] \<and>
   fst (sbs_block_read 0x6C 0x09 2 \<lparr>trace = [], rx = [0, 0, 0, 0x34, 0x12]\<rparr>) = Inr [0x34, 0x12] \<and>
   smbus2_sbs_block_read
     (\<lambda>a r n. if a = 0x36 \<and> r = 0x09 \<and> n = 2 then Inr [0x34, 0x12] else Inl IOError)
     0x6C 0x09 2 = Inr [0x34, 0x12] \<and>
   fst (sbs_word_read 0x6C 0x09 \<lparr>trace = [], rx = [0, 0, 0, 0x34, 0x12]\<rparr>) = Inr 0x1234 \<and>
   smbus2_sbs_word_read
     (\<lambda>a r n. if a = 0x36 \<and> r = 0x09 \<and> n = 2 then Inr [0x34, 0x12] else Inl IOError)
     0x6C 0x09 = Inr 0x1234 \<and>
   sbs_word_read 0x6D 0x09 = sbs_word_read 0x6C 0x09"
proof -
  let ?d = "\<lparr>trace = [], rx = [0, 0, 0, 0x34, 0x12 :: 8 word]\<rparr>"
  let ?bus = "\<lambda>(a::int) (r::int) (n::int). if a = 0x36 \<and> r = 0x09 \<and> n = 2
                then Inr [0x34, 0x12 :: int] else Inl IOError"
  let ?data = "[0x34, 0x12 :: 8 word]"
  have r: "rx ?d = 0 # 0 # 0 # ?data @ []" by simp
  have a: "\<not> bit (0 :: 8 word) 0" by simp
  have g: "(0::int) \<le> 0x09" "(0x09::int) < 256" by simp_all
  have bb: "?bus (drop_bit 1 (0x6C::int)) 0x09 (int (length ?data)) = Inr (map uint ?data)"
    by (simp add: drop_bit_eq_div)
  have lsb: "drop_bit 1 (0x6D :: int) = drop_bit 1 0x6C" by (simp add: drop_bit_eq_div)
  note t = C7_backends_agree [where bus = ?bus, OF r a a a g bb lsb]
  have l: "length ?data = 2 * 1" by simp
  have w: "fst (i2c_read_words 0x6C 0x09 (int 1) ?d) = smbus2_i2c_read_words ?bus 0x6C 0x09 (int 1) \<and>
           smbus2_i2c_read_words ?bus 0x6C 0x09 (int 1) = Inr (le_words (map uint ?data))"
    by (rule t [THEN conjunct1, rule_format, OF l])
  have b: "fst (sbs_block_read 0x6C 0x09 (int (length ?data)) ?d) =
             smbus2_sbs_block_read ?bus 0x6C 0x09 (int (length ?data)) \<and>
           smbus2_sbs_block_read ?bus 0x6C 0x09 (int (length ?data)) = Inr (map uint ?data)"
    using t [THEN conjunct2] by blast
  have l2: "length ?data = 2" by simp
  have s: "fst (sbs_word_read 0x6C 0x09 ?d) = smbus2_sbs_word_read ?bus 0x6C 0x09 \<and>
           smbus2_sbs_word_read ?bus 0x6C 0x09 = Inr (uint (?data ! 0) + 256 * uint (?data ! 1))"
    by (rule t [THEN conjunct2, THEN conjunct2, THEN conjunct2, THEN conjunct1, rule_format, OF l2])
  have x: "sbs_word_read 0x6D 0x09 = sbs_word_read 0x6C 0x09"
    using t [THEN conjunct2, THEN conjunct2, THEN conjunct2, THEN conjunct2] by blast
  have w1: "smbus2_i2c_read_words ?bus 0x6C 0x09 1 = Inr [0x1234]" using w by simp
  have w2: "fst (i2c_read_words 0x6C 0x09 1 ?d) = Inr [0x1234]" using w by simp
  have b1: "smbus2_sbs_block_read ?bus 0x6C 0x09 2 = Inr [0x34, 0x12]" using b by simp
  have b2: "fst (sbs_block_read 0x6C 0x09 2 ?d) = Inr [0x34, 0x12]" using b by simp
  have s1: "smbus2_sbs_word_read ?bus 0x6C 0x09 = Inr 0x1234" using s by simp
  have s2: "fst (sbs_word_read 0x6C 0x09 ?d) = Inr 0x1234" using s by simp
  show ?thesis
    by (intro conjI w1 w2 b1 b2 s1 s2 x)
qed

text \<open>
  Claim C8. The clock divisor computed at initialisation is
  \<open>round (6000000 / (40000 * 2)) - 1 = 74\<close>; its low and high bytes are 74 and 0, and the
  constructor transmits it as the stream \<open>[CMD_SET_CLOCK, 74, 0]\<close>, after the
  clock-divide command and before the two-byte read and the idle pin state.
\<close>

theorem C8_clock_divisor:
  "clock_div = round ((6000000 :: real) / (40000 * 2)) - 1 \<and>
   clock_div = 74 \<and>
   [clock_div mod 256, clock_div div 256] = [74, 0] \<and>
   ftd2xx_init d =
     (Inr (),
      d\<lparr>trace := trace d @
           [SetLatencyTimer 8, SetBitMode 0 0, SetBitMode 0 2,
            Write [CMD_CLKDIV_DISABLE, 1], Write [CMD_SET_CLOCK, 74, 0], Read 2,
            Write [CMD_SET_DATABITS_LOW, 0x13, 0x13]],
        rx := drop 2 (rx d)\<rparr>)"
proof -
  have rd: "round ((6000000 :: real) / (40000 * 2)) = 75" by (simp add: round_def)
  show ?thesis using clock_div_eq rd by (simp add: ftd2xx_init_eq)
qed

theorem C8_clock_divisor_witness:
  "bytes_out [] = [] \<and>
   fst (ftd2xx_init \<lparr>trace = [], rx = [0xFA, 0x01]\<rparr>) = Inr () \<and>
   trace (snd (ftd2xx_init \<lparr>trace = [], rx = [0xFA, 0x01]\<rparr>)) ! 4 = Write [0x86, 74, 0]"
  using C8_clock_divisor [of "\<lparr>trace = [], rx = [0xFA, 0x01]\<rparr>"]
  by (simp add: CMD_SET_CLOCK_def)

text \<open>
  Claim C9. Whatever the transport answers and whatever the arguments, the trace that
  \<open>ft_i2c_write_get_ack\<close>, \<open>ft_i2c_read_give_ack\<close>, \<open>i2c_read_words\<close>,
  \<open>sbs_block_read\<close> and \<open>sbs_word_read\<close> add keeps the response discipline: every
  transmitted stream reads back as commands; a stream with clock-in commands holds a
  send-immediate command after each of them and is followed at once by the read of as
  many bytes as it has clock-in commands; there is no other read. The stream of each of
  the two primitives has exactly one clock-in command, ends with the send-immediate
  command 0x87 and is followed by the read of one byte. The streams of the constructor
  hold no clock-in opcode at all.
\<close>

theorem C9_flush_and_response_count:
  "stream_discipline (emitted d (snd (ft_i2c_write_get_ack b d))) \<and>
   stream_discipline (emitted d (snd (ft_i2c_read_give_ack nack d))) \<and>
   stream_discipline (emitted d (snd (i2c_read_words bus_addr reg_addr num_words d))) \<and>
   stream_discipline (emitted d (snd (sbs_block_read bus_addr reg_addr num_bytes d))) \<and>
   stream_discipline (emitted d (snd (sbs_word_read bus_addr reg_addr d))) \<and>
   map_option count_datain (parse_cmds (write_get_ack_cmd_data b)) = Some 1 \<and>
   map_option count_datain (parse_cmds (read_give_ack_cmd_data nack)) = Some 1 \<and>
   map_option flush_after_datain (parse_cmds (write_get_ack_cmd_data b)) = Some True \<and>
   map_option flush_after_datain (parse_cmds (read_give_ack_cmd_data nack)) = Some True \<and>
   last (write_get_ack_cmd_data b) = CMD_SEND_IMMEDIATE \<and>
   last (read_give_ack_cmd_data nack) = CMD_SEND_IMMEDIATE \<and>
   CMD_SEND_IMMEDIATE = 0x87 \<and>
   (0 \<le> b \<and> b < 256 \<longrightarrow>
      emitted d (snd (ft_i2c_write_get_ack b d)) = [Write (write_get_ack_cmd_data b), Read 1]) \<and>
   emitted d (snd (ft_i2c_read_give_ack nack d)) = [Write (read_give_ack_cmd_data nack), Read 1] \<and>
   list_all (\<lambda>e. case e of Write s \<Rightarrow> CMD_DATAIN_POS_EDGE \<notin> set s | _ \<Rightarrow> True)
     (emitted d (snd (ftd2xx_init d)))"
proof (intro conjI impI)
  show "stream_discipline (emitted d (snd (ft_i2c_write_get_ack b d)))"
    by (rule disciplined_emitted [OF disciplined_write_get_ack])
  show "stream_discipline (emitted d (snd (ft_i2c_read_give_ack nack d)))"
    by (rule disciplined_emitted [OF disciplined_read_give_ack])
  show "stream_discipline (emitted d (snd (i2c_read_words bus_addr reg_addr num_words d)))"
    by (rule disciplined_emitted [OF disciplined_i2c_read_words])
  show "stream_discipline (emitted d (snd (sbs_block_read bus_addr reg_addr num_bytes d)))"
    by (rule disciplined_emitted [OF disciplined_sbs_block_read])
  show "stream_discipline (emitted d (snd (sbs_word_read bus_addr reg_addr d)))"
    by (rule disciplined_emitted [OF disciplined_sbs_word_read])
  show "map_option count_datain (parse_cmds (write_get_ack_cmd_data b)) = Some 1"
    by (simp add: parse_write_get_ack)
  show "map_option count_datain (parse_cmds (read_give_ack_cmd_data nack)) = Some 1"
    by (simp add: parse_read_give_ack)
  show "map_option flush_after_datain (parse_cmds (write_get_ack_cmd_data b)) = Some True"
    by (simp add: parse_write_get_ack)
  show "map_option flush_after_datain (parse_cmds (read_give_ack_cmd_data nack)) = Some True"
    by (simp add: parse_read_give_ack)
  show "last (write_get_ack_cmd_data b) = CMD_SEND_IMMEDIATE"
    by (simp add: write_get_ack_cmd_data_def)
  show "last (read_give_ack_cmd_data nack) = CMD_SEND_IMMEDIATE"
    by (simp add: read_give_ack_cmd_data_def)
  show "CMD_SEND_IMMEDIATE = 0x87"
    by (simp add: CMD_SEND_IMMEDIATE_def)
  show "emitted d (snd (ft_i2c_read_give_ack nack d)) =
          [Write (read_give_ack_cmd_data nack), Read 1]"
    by (rule emitted_read_give_ack)
  have "emitted d (snd (ftd2xx_init d)) =
          [SetLatencyTimer 8, SetBitMode 0 0, SetBitMode 0 2,
            Write [CMD_CLKDIV_DISABLE, 1], Write [CMD_SET_CLOCK, 74, 0], Read 2,
            Write [CMD_SET_DATABITS_LOW, 0x13, 0x13]]"
    by (rule emitted_append) (simp add: ftd2xx_init_eq)
  then show "list_all (\<lambda>e. case e of Write s \<Rightarrow> CMD_DATAIN_POS_EDGE \<notin> set s | _ \<Rightarrow> True)
     (emitted d (snd (ftd2xx_init d)))"
    by (simp add: mpsse_consts)
next
  assume "0 \<le> b \<and> b < 256"
  then show "emitted d (snd (ft_i2c_write_get_ack b d)) =
               [Write (write_get_ack_cmd_data b), Read 1]"
    by (simp add: emitted_write_get_ack)
qed

theorem C9_flush_and_response_count_witness:
  "stream_discipline
     (emitted \<lparr>trace = [], rx = [0, 0, 0, 0x34, 0x12]\<rparr>
        (snd (i2c_read_words 0x6C 0x09 1 \<lparr>trace = [], rx = [0, 0, 0, 0x34, 0x12]\<rparr>))) \<and>
   emitted \<lparr>trace = [], rx = [0, 0, 0, 0x34, 0x12]\<rparr>
     (snd (ft_i2c_write_get_ack 0x22 \<lparr>trace = [], rx = [0, 0, 0, 0x34, 0x12]\<rparr>)) =
     [Write (write_get_ack_cmd_data 0x22), Read 1] \<and>
   map_option count_datain (parse_cmds (write_get_ack_cmd_data 0x22)) = Some 1"
proof -
  let ?d = "\<lparr>trace = [], rx = [0, 0, 0, 0x34, 0x12 :: 8 word]\<rparr>"
  note t = C9_flush_and_response_count [of ?d "0x22" True "0x6C" "0x09" 1 2]
  have 1: "stream_discipline (emitted ?d (snd (i2c_read_words 0x6C 0x09 1 ?d)))"
    using t by (elim conjE)
  have r: "(0::int) \<le> 0x22 \<and> (0x22::int) < 256" by simp
  have "0 \<le> (0x22::int) \<and> (0x22::int) < 256 \<longrightarrow>
      emitted ?d (snd (ft_i2c_write_get_ack 0x22 ?d)) = [Write (write_get_ack_cmd_data 0x22), Read 1]"
    using t by (elim conjE)
  then have 2: "emitted ?d (snd (ft_i2c_write_get_ack 0x22 ?d)) =
      [Write (write_get_ack_cmd_data 0x22), Read 1]"
    using r by (rule mp)
  have 3: "map_option count_datain (parse_cmds (write_get_ack_cmd_data 0x22)) = Some 1"
    using t by (elim conjE)
  show ?thesis by (intro conjI 1 2 3)
qed

text \<open>
  Claim C10. An addressed read of zero bytes still writes START and the device address
  with the read flag set and reads the response: a NACK there raises \<open>IOError\<close>; an ACK
  is followed by STOP alone, with no data-byte read and no handshake bit, and the result
  is the empty list. Consequently \<open>i2c_read_words\<close> with \<open>num_words = 0\<close>, on a bus that
  acknowledges the three address and pointer bytes, returns the empty sequence.
\<close>

theorem C10_zero_length_read:
  assumes "rx d = a # rest"
  shows "(\<not> bit a 0 \<longrightarrow>
            ft_i2c_read_bytes bus_addr 0 True d =
              (Inr [],
               d\<lparr>trace := trace d @
                    [Write start_cmd_data,
                     Write (write_get_ack_cmd_data ((bus_addr AND 0xFE) OR 1)), Read 1,
                     Write stop_cmd_data],
                 rx := rest\<rparr>)) \<and>
         (bit a 0 \<longrightarrow> fst (ft_i2c_read_bytes bus_addr 0 True d) = Inl IOError) \<and>
         data_reads [Write start_cmd_data,
                     Write (write_get_ack_cmd_data ((bus_addr AND 0xFE) OR 1)), Read 1,
                     Write stop_cmd_data] = 0 \<and>
         handshakes [Write start_cmd_data,
                     Write (write_get_ack_cmd_data ((bus_addr AND 0xFE) OR 1)), Read 1,
                     Write stop_cmd_data] = [] \<and>
         (\<forall>a2 a3 rest' reg_addr.
            \<not> bit a 0 \<and> rest = a2 # a3 # rest' \<and> \<not> bit a2 0 \<and> \<not> bit a3 0 \<and>
            0 \<le> reg_addr \<and> reg_addr < 256 \<longrightarrow>
            fst (i2c_read_words bus_addr reg_addr 0 d) = Inr [] \<and>
            rx (snd (i2c_read_words bus_addr reg_addr 0 d)) = rest')"
proof (intro conjI impI allI)
  assume ack: "\<not> bit a 0"
  have "rx d = a # [] @ rest" using assms by simp
  from ft_i2c_read_bytes_ok [OF this ack, of 0 bus_addr True]
  show "ft_i2c_read_bytes bus_addr 0 True d =
              (Inr [],
               d\<lparr>trace := trace d @
                    [Write start_cmd_data,
                     Write (write_get_ack_cmd_data ((bus_addr AND 0xFE) OR 1)), Read 1,
                     Write stop_cmd_data],
                 rx := rest\<rparr>)"
    by (simp add: py_range_def)
next
  assume "bit a 0"
  from ft_i2c_read_bytes_nack [OF assms this]
  show "fst (ft_i2c_read_bytes bus_addr 0 True d) = Inl IOError" by simp
next
  show "data_reads [Write start_cmd_data,
                     Write (write_get_ack_cmd_data ((bus_addr AND 0xFE) OR 1)), Read 1,
                     Write stop_cmd_data] = 0"
    by (simp add: measure_simps)
  show "handshakes [Write start_cmd_data,
                     Write (write_get_ack_cmd_data ((bus_addr AND 0xFE) OR 1)), Read 1,
                     Write stop_cmd_data] = []"
    by (simp add: measure_simps)
next
  fix a2 a3 :: "8 word" and rest' :: "8 word list" and reg_addr :: int
  assume h: "\<not> bit a 0 \<and> rest = a2 # a3 # rest' \<and> \<not> bit a2 0 \<and> \<not> bit a3 0 \<and>
            0 \<le> reg_addr \<and> reg_addr < 256"
  then have r: "rx d = a # a2 # a3 # [] @ rest'" using assms by simp
  have l: "length ([] :: 8 word list) = 2 * 0" by simp
  from h have k: "\<not> bit a 0" "\<not> bit a2 0" "\<not> bit a3 0" "0 \<le> reg_addr" "reg_addr < 256"
    by simp_all
  note run = i2c_read_words_ok [OF r k l, of bus_addr]
  show "fst (i2c_read_words bus_addr reg_addr 0 d) = Inr []"
    using run by simp
  show "rx (snd (i2c_read_words bus_addr reg_addr 0 d)) = rest'"
    using run by simp
qed

theorem C10_zero_length_read_witness:
  "ft_i2c_read_bytes 0x6C 0 True \<lparr>trace = [], rx = [0, 0, 0, 9]\<rparr> =
     (Inr [], \<lparr>trace = [Write start_cmd_data, Write (write_get_ack_cmd_data 0x6D), Read 1,
                         Write stop_cmd_data], rx = [0, 0, 9]\<rparr>) \<and>
   fst (ft_i2c_read_bytes 0x6C 0 True \<lparr>trace = [], rx = [1, 0, 0, 9]\<rparr>) = Inl IOError \<and>
   fst (i2c_read_words 0x6C 0x00 0 \<lparr>trace = [], rx = [0, 0, 0, 9]\<rparr>) = Inr [] \<and>
   rx (snd (i2c_read_words 0x6C 0x00 0 \<lparr>trace = [], rx = [0, 0, 0, 9]\<rparr>)) = [9]"
proof -
  let ?d = "\<lparr>trace = [], rx = [0, 0, 0, 9 :: 8 word]\<rparr>"
  let ?e = "\<lparr>trace = [], rx = [1, 0, 0, 9 :: 8 word]\<rparr>"
  have rd: "rx ?d = 0 # [0, 0, 9]" and re: "rx ?e = 1 # [0, 0, 9]" by simp_all
  have a: "\<not> bit (0 :: 8 word) 0" and n: "bit (1 :: 8 word) 0" by simp_all
  note td = C10_zero_length_read [OF rd, of "0x6C"]
  note te = C10_zero_length_read [OF re, of "0x6C"]
  have 1: "ft_i2c_read_bytes 0x6C 0 True ?d =
     (Inr [], \<lparr>trace = [Write start_cmd_data, Write (write_get_ack_cmd_data 0x6D), Read 1,
                         Write stop_cmd_data], rx = [0, 0, 9]\<rparr>)"
    using td [THEN conjunct1, rule_format, OF a] by simp
  have 2: "fst (ft_i2c_read_bytes 0x6C 0 True ?e) = Inl IOError"
    using te [THEN conjunct2, THEN conjunct1, rule_format, OF n] .
  have "fst (i2c_read_words 0x6C 0x00 0 ?d) = Inr [] \<and> rx (snd (i2c_read_words 0x6C 0x00 0 ?d)) = [9]"
    by (rule td [THEN conjunct2, THEN conjunct2, THEN conjunct2, THEN conjunct2, rule_format,
          of 0 0 "[9]" "0x00"]) simp
  then show ?thesis using 1 2 by blast
qed

end
